theory Spec2Isabelle
  imports Complex_Main
begin

section \<open>JavaScript values\<close>

text \<open>
  A JavaScript number is an IEEE 754 double: a finite value, NaN or one of the two
  infinities. A finite double is carried as the real number it denotes; the sign of
  zero is not distinguished (\<open>-0 === 0\<close> holds in JavaScript as well).
\<close>

datatype jsnum = Fin real | NaN | PosInf | NegInf

text \<open>
  The values that reach the code under study: the two nullish values, numbers, and
  strings (any other JSON payload is of no type the code computes with; a string stands
  for it, since the code only ever asks \<open>Number.isFinite\<close> of such a value).
\<close>

datatype jsval = Undefined | Null | Number jsnum | Str string

text \<open>\<open>Number.isFinite(v)\<close>: no coercion, true only for a finite number.\<close>

fun isFinite :: "jsval \<Rightarrow> bool" where
  "isFinite (Number (Fin _)) = True"
| "isFinite _ = False"

text \<open>\<open>a ?? b\<close>: the right operand when the left one is null or undefined.\<close>

fun nullish :: "jsval \<Rightarrow> jsval \<Rightarrow> jsval" where
  "nullish Undefined b = b"
| "nullish Null b = b"
| "nullish a b = a"

text \<open>Truthiness, as used by \<open>!x\<close>, \<open>x || y\<close> and \<open>x && y\<close>.\<close>

fun truthy :: "jsval \<Rightarrow> bool" where
  "truthy Undefined = False"
| "truthy Null = False"
| "truthy (Number (Fin x)) = (x \<noteq> 0)"
| "truthy (Number NaN) = False"
| "truthy (Number _) = True"
| "truthy (Str s) = (s \<noteq> [])"

subsection \<open>Rounding to a double\<close>

text \<open>
  Every arithmetic operation of JavaScript gives the exact result rounded to the nearest
  double, ties to the even significand. \<open>round_even\<close> rounds a real to the nearest
  integer, ties to the even one.
\<close>

definition round_even :: "real \<Rightarrow> int" where
  "round_even q =
     (let f = \<lfloor>q\<rfloor>
      in if q - of_int f < 1 / 2 then f
         else if 1 / 2 < q - of_int f then f + 1
         else if even f then f else f + 1)"

text \<open>
  The exponent of the binade of \<open>x \<noteq> 0\<close>: \<open>2 ^ e \<le> |x| < 2 ^ (e + 1)\<close>, and \<open>-1022\<close> for
  the subnormal numbers below.
\<close>

definition expo :: "real \<Rightarrow> int" where
  "expo x = max (- 1022) \<lfloor>log 2 \<bar>x\<bar>\<rfloor>"

text \<open>
  The double nearest to \<open>x\<close>: a multiple of the spacing \<open>2 ^ (e - 52)\<close> of the binade of
  \<open>x\<close> (53 significant bits), or an infinity when the rounded value reaches \<open>2 ^ 1024\<close>.
\<close>

definition rnd :: "real \<Rightarrow> jsnum" where
  "rnd x =
     (if x = 0 then Fin 0
      else
        (let u = 2 powi (expo x - 52);
             y = of_int (round_even (x / u)) * u
         in if 2 ^ 1024 \<le> \<bar>y\<bar> then (if 0 < x then PosInf else NegInf) else Fin y))"

subsection \<open>Arithmetic on prices\<close>

text \<open>\<open>a - b\<close>, \<open>a + b\<close> and \<open>a * b\<close> on doubles.\<close>

fun fl_sub :: "jsnum \<Rightarrow> jsnum \<Rightarrow> jsnum" where
  "fl_sub (Fin a) (Fin b) = rnd (a - b)"
| "fl_sub NaN _ = NaN"
| "fl_sub _ NaN = NaN"
| "fl_sub PosInf PosInf = NaN"
| "fl_sub NegInf NegInf = NaN"
| "fl_sub PosInf _ = PosInf"
| "fl_sub NegInf _ = NegInf"
| "fl_sub (Fin a) PosInf = NegInf"
| "fl_sub (Fin a) NegInf = PosInf"

fun fl_add :: "jsnum \<Rightarrow> jsnum \<Rightarrow> jsnum" where
  "fl_add (Fin a) (Fin b) = rnd (a + b)"
| "fl_add NaN _ = NaN"
| "fl_add _ NaN = NaN"
| "fl_add PosInf NegInf = NaN"
| "fl_add NegInf PosInf = NaN"
| "fl_add PosInf _ = PosInf"
| "fl_add NegInf _ = NegInf"
| "fl_add (Fin a) PosInf = PosInf"
| "fl_add (Fin a) NegInf = NegInf"

text \<open>
  \<open>x * d\<close> and \<open>x / d\<close> for a finite double \<open>d\<close> that is not zero: the only products and
  quotients the code forms have the constant 100, a divisor it has tested with
  \<open>base !== 0\<close>, or a length it has tested with \<open>nums.length ?\<close> on the right.
\<close>

fun fl_mul :: "jsnum \<Rightarrow> real \<Rightarrow> jsnum" where
  "fl_mul (Fin a) d = rnd (a * d)"
| "fl_mul NaN d = NaN"
| "fl_mul PosInf d = (if 0 < d then PosInf else NegInf)"
| "fl_mul NegInf d = (if 0 < d then NegInf else PosInf)"

fun fl_div :: "jsnum \<Rightarrow> real \<Rightarrow> jsnum" where
  "fl_div (Fin a) d = rnd (a / d)"
| "fl_div NaN d = NaN"
| "fl_div PosInf d = (if 0 < d then PosInf else NegInf)"
| "fl_div NegInf d = (if 0 < d then NegInf else PosInf)"

subsection \<open>Arithmetic on month counts\<close>

text \<open>
  The month arithmetic of BuyerForecast works on integers (years, months, the horizons
  1, 3 and 6) of a size on which the double operations are exact; \<open>js_sub\<close>, \<open>js_add\<close>
  and \<open>js_mul\<close> are the operations on such values.
\<close>

fun js_sub :: "jsnum \<Rightarrow> jsnum \<Rightarrow> jsnum" where
  "js_sub (Fin a) (Fin b) = Fin (a - b)"
| "js_sub NaN _ = NaN"
| "js_sub _ NaN = NaN"
| "js_sub PosInf PosInf = NaN"
| "js_sub NegInf NegInf = NaN"
| "js_sub PosInf _ = PosInf"
| "js_sub NegInf _ = NegInf"
| "js_sub (Fin a) PosInf = NegInf"
| "js_sub (Fin a) NegInf = PosInf"

fun js_add :: "jsnum \<Rightarrow> jsnum \<Rightarrow> jsnum" where
  "js_add (Fin a) (Fin b) = Fin (a + b)"
| "js_add NaN _ = NaN"
| "js_add _ NaN = NaN"
| "js_add PosInf NegInf = NaN"
| "js_add NegInf PosInf = NaN"
| "js_add PosInf _ = PosInf"
| "js_add NegInf _ = NegInf"
| "js_add (Fin a) PosInf = PosInf"
| "js_add (Fin a) NegInf = NegInf"

text \<open>The sign of a number that is not NaN: negative, zero or positive.\<close>

fun js_sgn :: "jsnum \<Rightarrow> int" where
  "js_sgn (Fin a) = (if a < 0 then -1 else if a = 0 then 0 else 1)"
| "js_sgn PosInf = 1"
| "js_sgn NegInf = -1"
| "js_sgn NaN = 0"

fun js_mul :: "jsnum \<Rightarrow> jsnum \<Rightarrow> jsnum" where
  "js_mul (Fin a) (Fin b) = Fin (a * b)"
| "js_mul NaN _ = NaN"
| "js_mul _ NaN = NaN"
| "js_mul a b =
     (if js_sgn a * js_sgn b = 0 then NaN
      else if js_sgn a * js_sgn b < 0 then NegInf else PosInf)"

text \<open>\<open>Math.abs\<close>.\<close>

fun js_abs :: "jsnum \<Rightarrow> jsnum" where
  "js_abs (Fin a) = Fin \<bar>a\<bar>"
| "js_abs NaN = NaN"
| "js_abs _ = PosInf"

text \<open>\<open>a < b\<close> on numbers: false as soon as one side is NaN.\<close>

fun js_lt :: "jsnum \<Rightarrow> jsnum \<Rightarrow> bool" where
  "js_lt (Fin a) (Fin b) = (a < b)"
| "js_lt NaN _ = False"
| "js_lt _ NaN = False"
| "js_lt NegInf NegInf = False"
| "js_lt NegInf _ = True"
| "js_lt PosInf _ = False"
| "js_lt (Fin a) PosInf = True"
| "js_lt (Fin a) NegInf = False"

text \<open>\<open>Math.max(a, b)\<close>: NaN as soon as one argument is NaN.\<close>

fun js_max :: "jsnum \<Rightarrow> jsnum \<Rightarrow> jsnum" where
  "js_max NaN _ = NaN"
| "js_max _ NaN = NaN"
| "js_max a b = (if js_lt a b then b else a)"

section \<open>Percent change (CustomerPlanner)\<close>

text \<open>
  \<^verbatim>\<open>
  const pctChange = (future, base) =>
    Number.isFinite(future) && Number.isFinite(base) && base !== 0
      ? ((future - base) / base) * 100
      : null;
  \<close>
  The arithmetic runs only on two finite numbers with a non-zero divisor; each of its
  three operations rounds, and the difference may overflow to an infinity.
\<close>

fun pctChange :: "jsval \<Rightarrow> jsval \<Rightarrow> jsval" where
  "pctChange (Number (Fin future)) (Number (Fin base)) =
     (if base \<noteq> 0
      then Number (fl_mul (fl_div (fl_sub (Fin future) (Fin base)) base) 100)
      else Null)"
| "pctChange _ _ = Null"

section \<open>Month distance and nearest horizon (BuyerForecast)\<close>

text \<open>
  A \<open>Date\<close> object as the code reads it: either invalid, or the calendar fields of the
  instant in local time. \<open>getMonth\<close> counts from 0.
\<close>

datatype jsdate = InvalidDate | LocalDate int int int

fun getFullYear :: "jsdate \<Rightarrow> jsnum" where
  "getFullYear InvalidDate = NaN"
| "getFullYear (LocalDate yr mo dy) = Fin (of_int yr)"

fun getMonth :: "jsdate \<Rightarrow> jsnum" where
  "getMonth InvalidDate = NaN"
| "getMonth (LocalDate yr mo dy) = Fin (of_int mo)"

text \<open>A valid date has its month in 0..11 and its day in 1..31.\<close>

fun wf_date :: "jsdate \<Rightarrow> bool" where
  "wf_date InvalidDate = False"
| "wf_date (LocalDate yr mo dy) = (0 \<le> mo \<and> mo \<le> 11 \<and> 1 \<le> dy \<and> dy \<le> 31)"

text \<open>Calendar order: \<open>date_le a b\<close> says that \<open>a\<close> is at or before \<open>b\<close>.\<close>

fun date_le :: "jsdate \<Rightarrow> jsdate \<Rightarrow> bool" where
  "date_le (LocalDate y1 m1 d1) (LocalDate y2 m2 d2) =
     (y1 < y2 \<or> (y1 = y2 \<and> (m1 < m2 \<or> (m1 = m2 \<and> d1 \<le> d2))))"
| "date_le _ _ = False"

text \<open>
  \<^verbatim>\<open>
  function monthsBetween(d1, d2) {
    const a = new Date(d1);
    const b = new Date(d2);
    return Math.max(0, (b.getFullYear() - a.getFullYear()) * 12 + (b.getMonth() - a.getMonth()));
  }
  \<close>
  The constructor \<open>new Date\<close> belongs to the platform and is a parameter here.
\<close>

definition monthsBetween :: "('d \<Rightarrow> jsdate) \<Rightarrow> 'd \<Rightarrow> 'd \<Rightarrow> jsnum" where
  "monthsBetween newDate d1 d2 =
     (let a = newDate d1; b = newDate d2
      in js_max (Fin 0)
           (js_add (js_mul (js_sub (getFullYear b) (getFullYear a)) (Fin 12))
                   (js_sub (getMonth b) (getMonth a))))"

text \<open>
  The callback of the reduce in \<open>onSearch\<close>:
  \<^verbatim>\<open>(best, h) => Math.abs(h - m) < Math.abs(best - m) ? h : best\<close>
\<close>

definition pick :: "jsnum \<Rightarrow> jsnum \<Rightarrow> jsnum \<Rightarrow> jsnum" where
  "pick m best h = (if js_lt (js_abs (js_sub h m)) (js_abs (js_sub best m)) then h else best)"

text \<open>
  \<^verbatim>\<open>candidates.reduce(callback, candidates[0])\<close>
  On an empty array \<open>candidates[0]\<close> is \<open>undefined\<close>, and \<open>reduce\<close> with an initial
  value returns that value without calling the callback.
\<close>

fun nearestHorizon :: "jsnum \<Rightarrow> jsnum list \<Rightarrow> jsval" where
  "nearestHorizon m [] = Undefined"
| "nearestHorizon m (c # cs) = Number (foldl (pick m) c (c # cs))"

text \<open>The candidates of \<open>onSearch\<close>: \<^verbatim>\<open>const candidates = [1, 3, 6];\<close>\<close>

definition candidates :: "jsnum list" where
  "candidates = [Fin 1, Fin 3, Fin 6]"

text \<open>
  What the code throws: \<open>Error msg\<close> is \<^verbatim>\<open>new Error(msg)\<close> (also an error raised by
  the platform, with its message), and \<open>HttpError status\<close> is the error made from the
  status of a response that is not ok: \<^verbatim>\<open>new Error(`HTTP ${status}`)\<close> in BuyerForecast,
  \<^verbatim>\<open>new Error(`${r.status} ${r.statusText}`)\<close> in \<open>getJSON\<close> of ForecastDashboard.
\<close>

datatype js_error = Error string | HttpError nat

section \<open>Series merger (CustomerPlanner, ForecastDashboard)\<close>

text \<open>
  The merger copies dates and never inspects them, so the type of a date is a
  parameter. An observed point is \<^verbatim>\<open>{date, y}\<close>; a point of a forecast bundle is
  \<^verbatim>\<open>{date, yhat, lo, hi}\<close>.
\<close>

record 'd point =
  pt_date :: 'd
  pt_y :: jsval

record 'd fpoint =
  fp_date :: 'd
  yhat :: jsval
  fp_lo :: jsval
  fp_hi :: jsval

text \<open>
  A chart row. A property the object does not have reads as \<open>undefined\<close>, so an absent
  field is the value \<open>Undefined\<close>.
\<close>

record 'd row =
  date :: 'd
  actual :: jsval
  forecast :: jsval
  lo :: jsval
  hi :: jsval
  ma3 :: jsval
  mom :: jsval

text \<open>
  CustomerPlanner:
  \<^verbatim>\<open>
  const chartData = useMemo(() => {
    const f6 = bundle["6"] || [];
    const histRows = (hist || []).map((p) => ({ date: p.date, actual: p.y }));
    const foreRows = f6.map((p) => ({
      date: p.date,
      forecast: p.yhat,
      lo: p.lo,
      hi: p.hi,
    }));
    return [...histRows, ...foreRows];
  }, [hist, bundle]);
  \<close>
\<close>

definition histRow :: "'d point \<Rightarrow> 'd row" where
  "histRow p = \<lparr>date = pt_date p, actual = pt_y p, forecast = Undefined,
                lo = Undefined, hi = Undefined, ma3 = Undefined, mom = Undefined\<rparr>"

definition foreRow :: "'d fpoint \<Rightarrow> 'd row" where
  "foreRow p = \<lparr>date = fp_date p, actual = Undefined, forecast = yhat p,
                lo = fp_lo p, hi = fp_hi p, ma3 = Undefined, mom = Undefined\<rparr>"

definition chartData :: "'d point list \<Rightarrow> (string \<rightharpoonup> 'd fpoint list) \<Rightarrow> 'd row list" where
  "chartData hist bundle =
     (let f6 = (case bundle ''6'' of None \<Rightarrow> [] | Some ps \<Rightarrow> ps);
          histRows = map histRow hist;
          foreRows = map foreRow f6
      in histRows @ foreRows)"

text \<open>
  ForecastDashboard. The state \<open>kpi\<close>; an entry of \<open>future_dates\<close> is \<open>None\<close> when the
  key is absent or its value is falsy (the code only tests the entry's truthiness).
\<close>

record 'd kpi =
  current_price :: jsval
  pred_1m :: jsval
  pred_3m :: jsval
  pred_6m :: jsval
  pct_change_1m :: jsval
  pct_change_3m :: jsval
  pct_change_6m :: jsval
  future_dates :: "string \<rightharpoonup> 'd"

record 'd fut =
  fut_date :: 'd
  fut_forecast :: jsval

text \<open>\<open>v != null\<close>: neither \<open>null\<close> nor \<open>undefined\<close>.\<close>

definition notNull :: "jsval \<Rightarrow> bool" where
  "notNull v = (v \<noteq> Null \<and> v \<noteq> Undefined)"

text \<open>
  \<^verbatim>\<open>
  const futurePoints = useMemo(() => {
    const out = [];
    if (kpi.pred_1m != null && kpi.future_dates?.["1m"]) out.push({ date: kpi.future_dates["1m"], forecast: kpi.pred_1m });
    if (kpi.pred_3m != null && kpi.future_dates?.["3m"]) out.push({ date: kpi.future_dates["3m"], forecast: kpi.pred_3m });
    if (kpi.pred_6m != null && kpi.future_dates?.["6m"]) out.push({ date: kpi.future_dates["6m"], forecast: kpi.pred_6m });
    return out;
  }, [kpi]);
  \<close>
\<close>

definition futurePoint :: "jsval \<Rightarrow> 'd option \<Rightarrow> 'd fut list" where
  "futurePoint pred d =
     (case d of None \<Rightarrow> []
      | Some dt \<Rightarrow> if notNull pred then [\<lparr>fut_date = dt, fut_forecast = pred\<rparr>] else [])"

definition futurePoints :: "'d kpi \<Rightarrow> 'd fut list" where
  "futurePoints k =
     futurePoint (pred_1m k) (future_dates k ''1m'')
     @ futurePoint (pred_3m k) (future_dates k ''3m'')
     @ futurePoint (pred_6m k) (future_dates k ''6m'')"

text \<open>
  \<^verbatim>\<open>
  const chartData = useMemo(() => {
    const histRows = (history || []).map((p) => ({ date: p.date, actual: p.y, forecast: null }));
    const futRows = futurePoints.map((p) => ({ date: p.date, actual: null, forecast: p.forecast }));
    return [...histRows, ...futRows];
  }, [history, futurePoints]);
  \<close>
\<close>

definition histRow_dashboard :: "'d point \<Rightarrow> 'd row" where
  "histRow_dashboard p = \<lparr>date = pt_date p, actual = pt_y p, forecast = Null,
                lo = Undefined, hi = Undefined, ma3 = Undefined, mom = Undefined\<rparr>"

definition futRow :: "'d fut \<Rightarrow> 'd row" where
  "futRow p = \<lparr>date = fut_date p, actual = Null, forecast = fut_forecast p,
                lo = Undefined, hi = Undefined, ma3 = Undefined, mom = Undefined\<rparr>"

definition chartData_dashboard :: "'d point list \<Rightarrow> 'd fut list \<Rightarrow> 'd row list" where
  "chartData_dashboard history futs =
     (let histRows = map histRow_dashboard history;
          futRows = map futRow futs
      in histRows @ futRows)"

section \<open>Enrichment: moving average and month-over-month change\<close>

text \<open>
  \<open>arr.slice(start, end)\<close> for indices that are not negative: the elements at
  positions \<open>start\<close> up to, not including, \<open>end\<close>, as far as the array has them.
\<close>

definition js_slice :: "nat \<Rightarrow> nat \<Rightarrow> 'a list \<Rightarrow> 'a list" where
  "js_slice start end xs = take (end - start) (drop start xs)"

text \<open>
  \<open>slice.filter((v) => Number.isFinite(v))\<close>, read as the numbers it keeps.
\<close>

fun finiteVals :: "jsval list \<Rightarrow> real list" where
  "finiteVals [] = []"
| "finiteVals (Number (Fin x) # vs) = x # finiteVals vs"
| "finiteVals (_ # vs) = finiteVals vs"

text \<open>
  \<open>nums.length ? nums.reduce((a, b) => a + b, 0) / nums.length : null\<close>
\<close>

definition mean_or_null :: "real list \<Rightarrow> jsval" where
  "mean_or_null nums =
     (if length nums \<noteq> 0
      then Number (fl_div (foldl (\<lambda>a b. fl_add a (Fin b)) (Fin 0) nums) (real (length nums)))
      else Null)"

text \<open>
  \<^verbatim>\<open>
  const movingAverage = (arr, k = 3) =>
    arr.map((_, i) => {
      const slice = arr.slice(Math.max(0, i - k + 1), i + 1);
      const nums = slice.filter((v) => Number.isFinite(v));
      return nums.length ? nums.reduce((a, b) => a + b, 0) / nums.length : null;
    });
  \<close>
\<close>

definition movingAverage :: "jsval list \<Rightarrow> nat \<Rightarrow> jsval list" where
  "movingAverage arr k =
     map (\<lambda>i. let slice = js_slice (nat (max 0 (int i - int k + 1))) (i + 1) arr;
                  nums = finiteVals slice
              in mean_or_null nums)
         [0..<length arr]"

text \<open>
  \<^verbatim>\<open>
  for (let i = 1; i < data.length; i++) {
    const prev = data[i - 1].actual ?? data[i - 1].forecast;
    const curr = data[i].actual ?? data[i].forecast;
    data[i].mom =
      Number.isFinite(prev) && Number.isFinite(curr) ? curr - prev : null;
  }
  \<close>
  The subtraction runs on two finite numbers only; it rounds, and may overflow.
\<close>

fun momValue :: "jsval \<Rightarrow> jsval \<Rightarrow> jsval" where
  "momValue (Number (Fin prv)) (Number (Fin cur)) = Number (fl_sub (Fin cur) (Fin prv))"
| "momValue _ _ = Null"

function mom_loop :: "nat \<Rightarrow> 'd row list \<Rightarrow> 'd row list" where
  "mom_loop i data =
     (if i < length data then
        (let prv = nullish (actual (data ! (i - 1))) (forecast (data ! (i - 1)));
             cur = nullish (actual (data ! i)) (forecast (data ! i))
         in mom_loop (i + 1) (data[i := (data ! i)\<lparr>mom := momValue prv cur\<rparr>]))
      else data)"
  by pat_completeness auto
termination
  by (relation "measure (\<lambda>(i, data). length data - i)") auto

text \<open>
  \<open>data.forEach((d, i) => { d.ma3 = ma3[i]; })\<close>; an index past the end of \<open>ma3\<close>
  reads \<open>undefined\<close>.
\<close>

definition set_ma3 :: "'d row list \<Rightarrow> jsval list \<Rightarrow> 'd row list" where
  "set_ma3 data ma =
     map (\<lambda>i. (data ! i)\<lparr>ma3 := (if i < length ma then ma ! i else Undefined)\<rparr>)
         [0..<length data]"

text \<open>
  CustomerPlanner:
  \<^verbatim>\<open>
  const data = chartData.map((d) => ({ ...d }));

  if (showMA) {
    const actuals = data.map((d) =>
      Number.isFinite(d.actual) ? Number(d.actual) : null
    );
    const ma3 = movingAverage(actuals, 3);
    data.forEach((d, i) => {
      d.ma3 = ma3[i];
    });
  }

  if (changeView) { (the loop above) }

  return data;
  \<close>
  \<open>Number(v)\<close> of a finite number is that number.
\<close>

definition enrichedData :: "'d row list \<Rightarrow> bool \<Rightarrow> bool \<Rightarrow> 'd row list" where
  "enrichedData cd showMA changeView =
     (let data = map (\<lambda>d. d) cd;
          data1 = (if showMA then
                     (let actuals = map (\<lambda>d. if isFinite (actual d) then actual d else Null) data;
                          ma = movingAverage actuals 3
                      in set_ma3 data ma)
                   else data);
          data2 = (if changeView then mom_loop 1 data1 else data1)
      in data2)"

text \<open>
  ForecastDashboard, the same enrichment with the window written in place:
  \<^verbatim>\<open>
  const data = chartData.map((d) => ({ ...d }));
  if (showMA) {
    const vals = data.map((d) => (Number.isFinite(d.actual) ? d.actual : null));
    const ma3 = vals.map((_, i) => {
      const s = vals.slice(Math.max(0, i - 2), i + 1).filter((v) => Number.isFinite(v));
      return s.length ? s.reduce((a, b) => a + b, 0) / s.length : null;
    });
    data.forEach((d, i) => (d.ma3 = ma3[i]));
  }
  if (changeView) { (the same loop) }
  return data;
  \<close>
\<close>

definition enriched :: "'d row list \<Rightarrow> bool \<Rightarrow> bool \<Rightarrow> 'd row list" where
  "enriched cd showMA changeView =
     (let data = map (\<lambda>d. d) cd;
          data1 = (if showMA then
                     (let vals = map (\<lambda>d. if isFinite (actual d) then actual d else Null) data;
                          ma = map (\<lambda>i. let s = finiteVals (js_slice (nat (max 0 (int i - 2))) (i + 1) vals)
                                          in mean_or_null s)
                                   [0..<length vals]
                      in set_ma3 data ma)
                   else data);
          data2 = (if changeView then mom_loop 1 data1 else data1)
      in data2)"

declare mom_loop.simps [simp del]

section \<open>The enrichment as the specification words it\<close>

text \<open>
  The moving average at row \<open>i\<close> in the words of the claim: the mean of up to the last
  three finite \<open>actual\<close> values ending at \<open>i\<close>, that is, of the last three (or fewer)
  of the finite values found in the rows 0 to \<open>i\<close>; \<open>null\<close> when there is none.
\<close>

definition last3_finite_mean :: "jsval list \<Rightarrow> nat \<Rightarrow> jsval" where
  "last3_finite_mean acts i =
     (let fin = finiteVals (take (i + 1) acts)
      in mean_or_null (drop (length fin - 3) fin))"

text \<open>
  The month-over-month change at row \<open>i > 0\<close>:
  \<open>current.(actual ?? forecast) - previous.(actual ?? forecast)\<close>, or \<open>null\<close> if either
  side is not a finite number.
\<close>

definition spec_mom :: "'d row list \<Rightarrow> nat \<Rightarrow> jsval" where
  "spec_mom rows i =
     (case (nullish (actual (rows ! i)) (forecast (rows ! i)),
            nullish (actual (rows ! (i - 1))) (forecast (rows ! (i - 1)))) of
        (Number (Fin c), Number (Fin p)) \<Rightarrow> Number (fl_sub (Fin c) (Fin p))
      | _ \<Rightarrow> Null)"

text \<open>The value the loop stores at row \<open>j\<close>, read off a given array.\<close>

definition mom_at :: "'d row list \<Rightarrow> nat \<Rightarrow> jsval" where
  "mom_at data j = momValue (nullish (actual (data ! (j - 1))) (forecast (data ! (j - 1))))
                            (nullish (actual (data ! j)) (forecast (data ! j)))"

section \<open>Requests and responses\<close>

text \<open>
  What \<open>await fetch(url)\<close> gives: the promise rejects (network failure, abort) with an
  error message, or it resolves to a response with a status and a body, of which
  \<open>json()\<close> either rejects with a message (\<open>Inl\<close>) or yields the parsed value (\<open>Inr\<close>).
\<close>

datatype 'b response = Rejected string | Response nat "string + 'b"

text \<open>\<open>response.ok\<close>: the status is in the range 200 to 299.\<close>

definition ok :: "nat \<Rightarrow> bool" where
  "ok status = (200 \<le> status \<and> status \<le> 299)"

text \<open>
  The pattern of BuyerForecast and of \<open>getJSON\<close>:
  \<^verbatim>\<open>
  const r = await fetch(url);
  if (!r.ok) throw new Error(`HTTP ${r.status}`);
  const j = await r.json();
  \<close>
\<close>

fun awaitJson :: "'b response \<Rightarrow> js_error + 'b" where
  "awaitJson (Rejected msg) = Inl (Error msg)"
| "awaitJson (Response status body) =
     (if \<not> ok status then Inl (HttpError status)
      else case body of Inl msg \<Rightarrow> Inl (Error msg) | Inr j \<Rightarrow> Inr j)"

text \<open>
  Of the body of \<open>/predict\<close> for the horizon \<open>h\<close> the code reads two values, each
  \<open>undefined\<close> when a link of the chain is missing:
  \<^verbatim>\<open>pj?.kpi?.future_dates?.[`${h}m`]\<close> and \<^verbatim>\<open>pj?.kpi?.[`pred_${h}m`]\<close>.
\<close>

record predict_body =
  future_date_h :: jsval
  pred_h :: jsval

section \<open>QuickHorizons (BuyerForecast)\<close>

text \<open>
  A row of \<open>out\<close>:
  \<^verbatim>\<open>
  out.push({
    h,
    target_date: pj?.kpi?.future_dates?.[`${h}m`] || "",
    predicted_price: pj?.kpi?.[`pred_${h}m`],
    lo: undefined,
    hi: undefined,
  });
  \<close>
\<close>

record qrow =
  q_h :: nat
  target_date :: jsval
  predicted_price :: jsval
  q_lo :: jsval
  q_hi :: jsval

definition mk_qrow :: "nat \<Rightarrow> predict_body \<Rightarrow> qrow" where
  "mk_qrow h pj =
     \<lparr>q_h = h,
      target_date = (if truthy (future_date_h pj) then future_date_h pj else Str []),
      predicted_price = pred_h pj,
      q_lo = Undefined,
      q_hi = Undefined\<rparr>"

text \<open>
  \<^verbatim>\<open>
  const horizons = [1, 3, 6];
  const out = [];
  for (const h of horizons) {
    const pr = await fetch(`${API_BASE}/predict?...&horizon=${h}`);
    if (!pr.ok) throw new Error(`HTTP ${pr.status}`);
    const pj = await pr.json();
    out.push({ ... });
  }
  \<close>
  The requests are made one after the other; the first that fails ends the loop.
\<close>

fun predict_loop :: "(nat \<Rightarrow> predict_body response) \<Rightarrow> nat list \<Rightarrow> qrow list \<Rightarrow> js_error + qrow list" where
  "predict_loop predict [] out = Inr out"
| "predict_loop predict (h # hs) out =
     (case awaitJson (predict h) of
        Inl e \<Rightarrow> Inl e
      | Inr pj \<Rightarrow> predict_loop predict hs (out @ [mk_qrow h pj]))"

definition horizons :: "nat list" where
  "horizons = [1, 3, 6]"

text \<open>
  The body of the \<open>try\<close> block of \<open>go\<close>: the series first, for the last known point,
  \<^verbatim>\<open>
  const rr = await fetch(`${API_BASE}/series?...&months=24`);
  if (!rr.ok) throw new Error(`HTTP ${rr.status}`);
  const jj = await rr.json();
  const pts = Array.isArray(jj?.points) ? jj.points : [];
  const last = pts[pts.length - 1] || null;
  const lastKnown = last ? { date: last.date, price_sll: last.y } : null;
  \<close>
  then the loop. The body of \<open>/series\<close> is \<open>None\<close> when it has no array of points.
\<close>

definition quick_try ::
  "'d point list option response \<Rightarrow> (nat \<Rightarrow> predict_body response)
     \<Rightarrow> js_error + ('d point option \<times> qrow list)" where
  "quick_try series predict =
     (case awaitJson series of
        Inl e \<Rightarrow> Inl e
      | Inr jj \<Rightarrow>
          (let pts = (case jj of None \<Rightarrow> [] | Some ps \<Rightarrow> ps);
               lastKnown = (if pts = [] then None else Some (last pts))
           in case predict_loop predict horizons [] of
                Inl e \<Rightarrow> Inl e
              | Inr out \<Rightarrow> Inr (lastKnown, out)))"

text \<open>
  The state of the component: \<open>rows\<close>, \<open>meta\<close> (\<open>None\<close> is \<open>null\<close>; otherwise its
  \<open>last_known\<close>), \<open>loading\<close> and \<open>err\<close> (the error whose message is shown).
\<close>

record 'd qh_state =
  qh_rows :: "qrow list"
  qh_meta :: "'d point option option"
  qh_loading :: bool
  qh_err :: "js_error option"

text \<open>
  \<^verbatim>\<open>
  async function go() {
    if (!commodity) return;
    setLoading(true); setErr(null);
    try {
      (the body above)
      if (!alive) return;
      setRows(out);
      setMeta({ last_known: lastKnown, model: "XGBoost" });
      setLoading(false);
    } catch (e) {
      if (!alive) return;
      setErr(e.message || String(e));
      setLoading(false);
    }
  }
  \<close>
  \<open>alive\<close> tells whether the effect has not been cleaned up when the requests are done.
\<close>

definition QuickHorizons_go ::
  "string \<Rightarrow> 'd point list option response \<Rightarrow> (nat \<Rightarrow> predict_body response)
     \<Rightarrow> bool \<Rightarrow> 'd qh_state \<Rightarrow> 'd qh_state" where
  "QuickHorizons_go commodity series predict alive s =
     (if commodity = [] then s
      else
        (let s1 = s\<lparr>qh_loading := True, qh_err := None\<rparr>
         in case quick_try series predict of
              Inr (lastKnown, out) \<Rightarrow>
                if \<not> alive then s1
                else s1\<lparr>qh_rows := out, qh_meta := Some lastKnown, qh_loading := False\<rparr>
            | Inl e \<Rightarrow>
                if \<not> alive then s1
                else s1\<lparr>qh_err := Some e, qh_loading := False\<rparr>))"

section \<open>The forecast loop of CustomerPlanner\<close>

text \<open>\<open>h.toString()\<close> for a horizon: the decimal digits of a natural number.\<close>

fun toString :: "nat \<Rightarrow> string" where
  "toString n =
     (if n < 10 then [''0123456789'' ! n]
      else toString (n div 10) @ [''0123456789'' ! (n mod 10)])"

declare toString.simps [simp del]

text \<open>
  \<^verbatim>\<open>
  const horizons = [1, 3, 6];
  const out = {};
  for (const h of horizons) {
    const r = await fetch(`${API_BASE}/predict?...&horizon=${h}`, { signal: ctrl.signal });
    if (!r.ok) continue;
    const j = await r.json();
    const targetDate = j?.kpi?.future_dates?.[`${h}m`];
    const pred = j?.kpi?.[`pred_${h}m`];
    out[h.toString()] = [{ date: targetDate, yhat: pred, lo: null, hi: null }];
  }
  setBundle(out);
  \<close>
  A response that is not ok is skipped; a rejected request or body leaves the loop
  for the \<open>catch\<close> block of the effect.
\<close>

fun planner_loop ::
  "(nat \<Rightarrow> predict_body response) \<Rightarrow> nat list \<Rightarrow> (string \<rightharpoonup> jsval fpoint list)
     \<Rightarrow> js_error + (string \<rightharpoonup> jsval fpoint list)" where
  "planner_loop predict [] out = Inr out"
| "planner_loop predict (h # hs) out =
     (case predict h of
        Rejected msg \<Rightarrow> Inl (Error msg)
      | Response status body \<Rightarrow>
          if \<not> ok status then planner_loop predict hs out
          else (case body of
                  Inl msg \<Rightarrow> Inl (Error msg)
                | Inr j \<Rightarrow>
                    planner_loop predict hs
                      (out(toString h \<mapsto>
                         [\<lparr>fp_date = future_date_h j, yhat = pred_h j,
                           fp_lo = Null, fp_hi = Null\<rparr>]))))"

section \<open>Loading on selection change (ForecastDashboard)\<close>

text \<open>
  The body of \<open>/predict\<close> as the effect reads it: \<open>r1.current_price\<close> and \<open>r1.kpi\<close>
  (\<open>None\<close> when absent or falsy), whose \<open>future_dates\<close> is \<open>None\<close> when null or absent.
\<close>

record 'd kpi_json =
  j_pred_1m :: jsval
  j_pred_3m :: jsval
  j_pred_6m :: jsval
  j_pct_change_1m :: jsval
  j_pct_change_3m :: jsval
  j_pct_change_6m :: jsval
  j_future_dates :: "(string \<rightharpoonup> 'd) option"

record 'd predict_json =
  j_current_price :: jsval
  j_kpi :: "'d kpi_json option"

text \<open>\<open>o?.f\<close>: \<open>undefined\<close> when the object is missing.\<close>

fun opt_field :: "('a \<Rightarrow> jsval) \<Rightarrow> 'a option \<Rightarrow> jsval" where
  "opt_field f None = Undefined"
| "opt_field f (Some x) = f x"

text \<open>
  The \<open>kpi\<close> stored when the request fails, also the initial state:
  \<^verbatim>\<open>
  setKpi({
    current_price: null,
    pred_1m: null, pred_3m: null, pred_6m: null,
    pct_change_1m: null, pct_change_3m: null, pct_change_6m: null,
    future_dates: {},
  });
  \<close>
\<close>

definition emptyKpi :: "'d kpi" where
  "emptyKpi = \<lparr>current_price = Null, pred_1m = Null, pred_3m = Null, pred_6m = Null,
               pct_change_1m = Null, pct_change_3m = Null, pct_change_6m = Null,
               future_dates = Map.empty\<rparr>"

text \<open>
  The \<open>kpi\<close> stored from a response (\<open>r1\<close> is \<open>None\<close> when the body is \<open>null\<close>):
  \<^verbatim>\<open>
  const k = r1?.kpi || {};
  setKpi({
    current_price: r1?.current_price ?? null,
    pred_1m: k?.pred_1m ?? null,
    pred_3m: k?.pred_3m ?? null,
    pred_6m: k?.pred_6m ?? null,
    pct_change_1m: k?.pct_change_1m ?? null,
    pct_change_3m: k?.pct_change_3m ?? null,
    pct_change_6m: k?.pct_change_6m ?? null,
    future_dates: k?.future_dates ?? {},
  });
  \<close>
\<close>

definition kpi_of :: "'d predict_json option \<Rightarrow> 'd kpi" where
  "kpi_of r1 =
     (let k = (case r1 of None \<Rightarrow> None | Some r \<Rightarrow> j_kpi r)
      in \<lparr>current_price = nullish (opt_field j_current_price r1) Null,
          pred_1m = nullish (opt_field j_pred_1m k) Null,
          pred_3m = nullish (opt_field j_pred_3m k) Null,
          pred_6m = nullish (opt_field j_pred_6m k) Null,
          pct_change_1m = nullish (opt_field j_pct_change_1m k) Null,
          pct_change_3m = nullish (opt_field j_pct_change_3m k) Null,
          pct_change_6m = nullish (opt_field j_pct_change_6m k) Null,
          future_dates = (case k of None \<Rightarrow> Map.empty
                          | Some kk \<Rightarrow> (case j_future_dates kk of None \<Rightarrow> Map.empty | Some m \<Rightarrow> m))\<rparr>)"

text \<open>
  \<^verbatim>\<open>
  async function getJSON(url, signal) {
    const r = await fetch(url, { signal });
    if (!r.ok) throw new Error(`${r.status} ${r.statusText}`);
    return r.json();
  }
  \<close>
\<close>

definition getJSON :: "'b response \<Rightarrow> js_error + 'b" where
  "getJSON r = awaitJson r"

text \<open>
  The state the effect works on: the counter \<open>latestReq.current\<close> (a counter of
  selections, carried as a natural number), \<open>kpi\<close> and \<open>history\<close>.
\<close>

record 'd dash =
  latestReq :: nat
  st_kpi :: "'d kpi"
  st_history :: "'d point list"

text \<open>
  The synchronous part of the effect, run on every change of the selection:
  \<^verbatim>\<open>
  if (!commodity || !region) return;
  const ctrl = new AbortController();
  const reqId = ++latestReq.current;
  \<close>
  It returns the \<open>reqId\<close> of the requests it issues, if it issues any.
\<close>

definition selectionChange :: "string \<Rightarrow> string \<Rightarrow> 'd dash \<Rightarrow> nat option \<times> 'd dash" where
  "selectionChange commodity region s =
     (if commodity = [] \<or> region = [] then (None, s)
      else (Some (latestReq s + 1), s\<lparr>latestReq := latestReq s + 1\<rparr>))"

text \<open>
  The continuation after the first \<open>await\<close>, run when the response of \<open>/predict\<close> for
  the request \<open>reqId\<close> arrives (an aborted request arrives as a rejection):
  \<^verbatim>\<open>
  try {
    const r1 = await getJSON(...predict..., ctrl.signal);
    if (reqId !== latestReq.current) return;
    const k = r1?.kpi || {};
    setKpi({ ... });
  } catch (e) {
    if (reqId !== latestReq.current) return;
    console.error("Predict fetch failed:", e);
    setKpi({ ...null... });
  }
  \<close>
  The boolean tells whether the function goes on to request the series.
\<close>

definition onPredict ::
  "nat \<Rightarrow> 'd predict_json option response \<Rightarrow> 'd dash \<Rightarrow> bool \<times> 'd dash" where
  "onPredict reqId resp s =
     (case getJSON resp of
        Inr r1 \<Rightarrow>
          if reqId \<noteq> latestReq s then (False, s)
          else (True, s\<lparr>st_kpi := kpi_of r1\<rparr>)
      | Inl e \<Rightarrow>
          if reqId \<noteq> latestReq s then (False, s)
          else (True, s\<lparr>st_kpi := emptyKpi\<rparr>))"

text \<open>
  The continuation after the second \<open>await\<close>:
  \<^verbatim>\<open>
  try {
    const hist = await getJSON(...series..., ctrl.signal);
    if (reqId !== latestReq.current) return;
    setHistory(Array.isArray(hist?.points) ? hist.points : []);
  } catch (e) {
    if (reqId !== latestReq.current) return;
    console.error("Series fetch failed:", e);
    setHistory([]);
  }
  \<close>
\<close>

definition onSeries ::
  "nat \<Rightarrow> 'd point list option response \<Rightarrow> 'd dash \<Rightarrow> 'd dash" where
  "onSeries reqId resp s =
     (case getJSON resp of
        Inr hist \<Rightarrow>
          if reqId \<noteq> latestReq s then s
          else s\<lparr>st_history := (case hist of None \<Rightarrow> [] | Some ps \<Rightarrow> ps)\<rparr>
      | Inl e \<Rightarrow>
          if reqId \<noteq> latestReq s then s
          else s\<lparr>st_history := []\<rparr>)"

text \<open>
  Everything runs on one thread: what happens to the state is a sequence of events, a
  change of the selection or the arrival of a response for some request, in any order
  the network produces.
\<close>

datatype 'd event =
    SelectionChange string string
  | PredictArrives nat "'d predict_json option response"
  | SeriesArrives nat "'d point list option response"

fun step :: "'d event \<Rightarrow> 'd dash \<Rightarrow> 'd dash" where
  "step (SelectionChange commodity region) s = snd (selectionChange commodity region s)"
| "step (PredictArrives reqId resp) s = snd (onPredict reqId resp s)"
| "step (SeriesArrives reqId resp) s = onSeries reqId resp s"

definition run :: "'d event list \<Rightarrow> 'd dash \<Rightarrow> 'd dash" where
  "run evs s = fold step evs s"

text \<open>The event is the arrival of a response for the request \<open>reqId\<close>.\<close>

definition arrival_of :: "nat \<Rightarrow> 'd event \<Rightarrow> bool" where
  "arrival_of reqId ev =
     (case ev of SelectionChange c r \<Rightarrow> False
      | PredictArrives i resp \<Rightarrow> i = reqId
      | SeriesArrives i resp \<Rightarrow> i = reqId)"

section \<open>Rounding: facts\<close>

lemma expo_eqI:
  assumes "2 powi e \<le> \<bar>x\<bar>" "\<bar>x\<bar> < 2 powi (e + 1)" "- 1022 \<le> e"
  shows "expo x = e"
proof -
  have "(0::real) < 2 powi e" by (rule zero_less_power_int) simp
  then have pos: "0 < \<bar>x\<bar>" using assms(1) by linarith
  have p1: "(2::real) powr real_of_int e = 2 powi e"
    by (rule powr_real_of_int') simp_all
  have p2: "(2::real) powr (real_of_int e + 1) = 2 powi (e + 1)"
    using powr_real_of_int'[of "2::real" "e + 1"] by simp
  have "\<lfloor>log 2 \<bar>x\<bar>\<rfloor> = e"
    using floor_log_eq_powr_iff[of "\<bar>x\<bar>" 2 e] pos assms(1,2) p1 p2 by simp
  then show ?thesis using assms(3) by (simp add: expo_def)
qed

lemma rnd_eqI:
  assumes "2 powi e \<le> \<bar>x\<bar>" "\<bar>x\<bar> < 2 powi (e + 1)" "- 1022 \<le> e"
    and "round_even (x / 2 powi (e - 52)) = n"
    and "\<bar>of_int n * 2 powi (e - 52)\<bar> < (2::real) ^ 1024"
  shows "rnd x = Fin (of_int n * 2 powi (e - 52))"
proof -
  have "(0::real) < 2 powi e" by (rule zero_less_power_int) simp
  then have "0 < \<bar>x\<bar>" using assms(1) by linarith
  then have "x \<noteq> 0" by simp
  moreover have "expo x = e" using assms(1,2,3) by (rule expo_eqI)
  ultimately show ?thesis using assms(4,5) by (simp add: rnd_def Let_def)
qed

lemma round_even_of_int: "round_even (of_int m) = m"
  by (simp add: round_even_def)

lemma rnd_of_int:
  assumes "\<bar>k\<bar> < 2 ^ 53"
  shows "rnd (of_int k) = Fin (of_int k)"
proof (cases "k = 0")
  case True
  then show ?thesis by (simp add: rnd_def)
next
  case False
  define e where "e = \<lfloor>log 2 \<bar>real_of_int k\<bar>\<rfloor>"
  have k1: "1 \<le> \<bar>real_of_int k\<bar>" using False by (simp flip: of_int_abs)
  have k2: "\<bar>real_of_int k\<bar> < 2 ^ 53"
    using assms by (metis of_int_abs of_int_less_numeral_power_cancel_iff)
  have "0 \<le> log 2 \<bar>real_of_int k\<bar>" using k1 by simp
  then have e0: "0 \<le> e" by (simp add: e_def)
  have "log 2 \<bar>real_of_int k\<bar> < 53"
    using k1 k2 by (simp add: log_less_iff powr_realpow[symmetric])
  then have e1: "e \<le> 52" unfolding e_def by linarith
  have ex: "expo (of_int k) = e" using e0 by (simp add: expo_def e_def)
  define d where "d = nat (52 - e)"
  have u: "(2::real) powi (e - 52) = inverse (2 ^ d)"
    using e1 by (cases "e = 52") (simp_all add: power_int_def d_def power_one_over inverse_eq_divide)
  have q: "real_of_int k / 2 powi (e - 52) = of_int (k * 2 ^ d)"
    by (simp add: u divide_inverse)
  have r: "round_even (real_of_int k / 2 powi (e - 52)) = k * 2 ^ d"
    unfolding q by (rule round_even_of_int)
  have y: "of_int (k * 2 ^ d) * (2::real) powi (e - 52) = of_int k"
    by (simp add: u field_simps)
  have "(2::real) ^ 53 \<le> 2 ^ 1024" by (rule power_increasing) simp_all
  then have big: "\<bar>real_of_int k\<bar> < 2 ^ 1024"
    using k2 by (rule order_less_le_trans[rotated])
  have "rnd (of_int k) =
          (if 2 ^ 1024 \<le> \<bar>real_of_int k\<bar> then (if 0 < real_of_int k then PosInf else NegInf)
           else Fin (of_int k))"
    unfolding rnd_def Let_def ex r y using False by simp
  then show ?thesis using big by (simp only: not_le[symmetric] if_False)
qed

lemma rnd_overflow_example: "rnd (2 ^ 1023 - - (2 ^ 1023)) = PosInf"
proof -
  have e: "expo (2 ^ 1023 - - (2 ^ 1023)) = 1024"
    by (rule expo_eqI) simp_all
  show ?thesis
    unfolding rnd_def Let_def e by (simp add: round_even_def)
qed

text \<open>On integers below \<open>2 ^ 53\<close> the rounded operations are the exact ones.\<close>

lemma fl_sub_int:
  "\<bar>a - b\<bar> < 2 ^ 53 \<Longrightarrow>
   fl_sub (Fin (of_int a)) (Fin (of_int b)) = js_sub (Fin (of_int a)) (Fin (of_int b))"
  using rnd_of_int [of "a - b"] by simp

lemma fl_add_int:
  "\<bar>a + b\<bar> < 2 ^ 53 \<Longrightarrow>
   fl_add (Fin (of_int a)) (Fin (of_int b)) = js_add (Fin (of_int a)) (Fin (of_int b))"
  using rnd_of_int [of "a + b"] by simp

lemma fl_mul_int:
  "\<bar>a * b\<bar> < 2 ^ 53 \<Longrightarrow>
   fl_mul (Fin (of_int a)) (of_int b) = js_mul (Fin (of_int a)) (Fin (of_int b))"
  using rnd_of_int [of "a * b"] by simp

section \<open>Percent change: properties\<close>

text \<open>
  C2. \<open>pctChange(future, base)\<close> is \<open>(future - base) / base * 100\<close>, each operation the
  one of doubles, exactly when both arguments are finite numbers and \<open>base\<close> is not 0,
  and \<open>null\<close> for every other pair of values (the function is total: no input makes it
  throw). In particular \<open>pctChange(x, 0)\<close> is \<open>null\<close> for every \<open>x\<close>,
  \<open>pctChange(NaN, 5)\<close> is \<open>null\<close> and \<open>pctChange(110, 100)\<close> is 10. A difference that
  overflows gives an infinity, not \<open>null\<close>.
\<close>

theorem pctChange_spec:
  "(b \<noteq> 0 \<longrightarrow>
      pctChange (Number (Fin f)) (Number (Fin b))
        = Number (fl_mul (fl_div (fl_sub (Fin f) (Fin b)) b) 100))
   \<and> ((isFinite future \<and> isFinite base \<and> base \<noteq> Number (Fin 0))
        = (pctChange future base \<noteq> Null))
   \<and> pctChange x (Number (Fin 0)) = Null
   \<and> pctChange (Number NaN) (Number (Fin 5)) = Null
   \<and> pctChange (Number (Fin 110)) (Number (Fin 100)) = Number (Fin 10)
   \<and> pctChange (Number (Fin (2 ^ 1023))) (Number (Fin (- (2 ^ 1023)))) = Number NegInf"
proof -
  have A: "(isFinite future \<and> isFinite base \<and> base \<noteq> Number (Fin 0))
        = (pctChange future base \<noteq> Null)"
    by (cases "(future, base)" rule: pctChange.cases) auto
  have B: "pctChange x (Number (Fin 0)) = Null"
    by (cases "(x, Number (Fin 0))" rule: pctChange.cases) auto
  have t1: "rnd (110 - 100) = Fin 10"
    using rnd_of_int [of 10] by simp
  have t2: "rnd (10 / 100) = Fin (3602879701896397 / 2 ^ 55)"
  proof -
    have "rnd (10 / 100) = Fin (of_int 7205759403792794 * 2 powi (- 4 - 52))"
      by (rule rnd_eqI) (simp_all add: round_even_def)
    then show ?thesis by simp
  qed
  have t3: "rnd (3602879701896397 / 2 ^ 55 * 100) = Fin 10"
  proof -
    have "rnd (3602879701896397 / 2 ^ 55 * 100) = Fin (of_int 5629499534213120 * 2 powi (3 - 52))"
      by (rule rnd_eqI) (simp_all add: round_even_def)
    then show ?thesis by simp
  qed
  have C: "pctChange (Number (Fin 110)) (Number (Fin 100)) = Number (Fin 10)"
    by (simp only: pctChange.simps fl_sub.simps fl_div.simps fl_mul.simps t1 t2 t3) simp
  have D: "pctChange (Number (Fin (2 ^ 1023))) (Number (Fin (- (2 ^ 1023)))) = Number NegInf"
    by (simp only: pctChange.simps fl_sub.simps fl_div.simps fl_mul.simps
          rnd_overflow_example) simp
  show ?thesis using A B C D by simp
qed

theorem pctChange_spec_witness:
  "pctChange (Number (Fin 102)) (Number (Fin 98)) = Number (Fin (4595509823847445 / 2 ^ 50))"
proof -
  have t1: "rnd (102 - 98) = Fin 4"
    using rnd_of_int [of 4] by simp
  have t2: "rnd (4 / 98) = Fin (5882252574524729 / 2 ^ 57)"
  proof -
    have "rnd (4 / 98) = Fin (of_int 5882252574524729 * 2 powi (- 5 - 52))"
      by (rule rnd_eqI) (simp_all add: round_even_def)
    then show ?thesis by simp
  qed
  have t3: "rnd (5882252574524729 / 2 ^ 57 * 100) = Fin (4595509823847445 / 2 ^ 50)"
  proof -
    have "rnd (5882252574524729 / 2 ^ 57 * 100)
            = Fin (of_int 4595509823847445 * 2 powi (2 - 52))"
      by (rule rnd_eqI) (simp_all add: round_even_def)
    then show ?thesis by simp
  qed
  have h: "(98::real) \<noteq> 0" by simp
  have "pctChange (Number (Fin 102)) (Number (Fin 98))
          = Number (fl_mul (fl_div (fl_sub (Fin 102) (Fin 98)) 98) 100)"
    by (rule pctChange_spec [THEN conjunct1, THEN mp, OF h])
  then show ?thesis
    by (simp only: fl_sub.simps fl_div.simps fl_mul.simps t1 t2 t3)
qed

section \<open>Auxiliary facts\<close>

lemma nearest_cases:
  "nearestHorizon (Fin (real n)) candidates =
     Number (Fin (if n \<le> 2 then 1 else if n \<le> 4 then 3 else 6))"
  by (auto simp: candidates_def pick_def)

lemma monthsBetween_zero: "wf_date (nd l) \<Longrightarrow> wf_date (nd t) \<Longrightarrow> date_le (nd t) (nd l) \<Longrightarrow> monthsBetween nd l t = Fin 0"
  apply (cases "nd l"; cases "nd t")
  apply (auto simp: monthsBetween_def Let_def)
  done

lemma length_mom_loop: "length (mom_loop i data) = length data"
proof (induction i data rule: mom_loop.induct)
  case (1 i data)
  show ?case
  proof (cases "i < length data")
    case True
    then show ?thesis using 1 by (subst mom_loop.simps) (simp add: Let_def)
  next
    case False
    then show ?thesis by (subst mom_loop.simps) simp
  qed
qed

lemma mom_loop_nth:
  "0 < i \<Longrightarrow> j < length data \<Longrightarrow>
   mom_loop i data ! j = (if j < i then data ! j else (data ! j)\<lparr>mom := mom_at data j\<rparr>)"
proof (induction i data arbitrary: j rule: mom_loop.induct)
  case (1 i data)
  show ?case
  proof (cases "i < length data")
    case False
    with 1 show ?thesis by (subst mom_loop.simps) simp
  next
    case True
    let ?d = "data[i := (data ! i)\<lparr>mom := mom_at data i\<rparr>]"
    have step: "mom_loop i data = mom_loop (i + 1) ?d"
      using True by (subst mom_loop.simps) (simp add: Let_def mom_at_def)
    have IH: "mom_loop (i + 1) ?d ! j =
              (if j < i + 1 then ?d ! j else (?d ! j)\<lparr>mom := mom_at ?d j\<rparr>)"
      using 1(1)[OF True refl refl, of j] 1(2,3) by (simp add: mom_at_def)
    have same: "mom_at ?d j = mom_at data j" if "i < j"
      using that True 1(2,3) by (auto simp: mom_at_def nth_list_update)
    consider "j < i" | "j = i" | "i < j" by linarith
    then show ?thesis
    proof cases
      case 1
      then show ?thesis using IH step by simp
    next
      case 2
      then show ?thesis using IH step True by simp
    next
      case 3
      then show ?thesis using IH step same 1(3) by simp
    qed
  qed
qed

lemma length_set_ma3: "length (set_ma3 data ma) = length data"
  by (simp add: set_ma3_def)

lemma set_ma3_nth: "i < length data \<Longrightarrow>
   set_ma3 data ma ! i = (data ! i)\<lparr>ma3 := (if i < length ma then ma ! i else Undefined)\<rparr>"
  by (simp add: set_ma3_def)

lemma length_movingAverage: "length (movingAverage arr k) = length arr"
  by (simp add: movingAverage_def)

lemma enriched_eq: "enriched cd a b = enrichedData cd a b"
  by (simp add: enriched_def enrichedData_def movingAverage_def Let_def)


lemma js_slice_nth: "e \<le> length xs \<Longrightarrow> js_slice s e xs = map ((!) xs) [s..<e]"
  by (rule nth_equalityI) (auto simp: js_slice_def)

lemma finiteVals_map:
  "finiteVals (map f js) = concat (map (\<lambda>j. case f j of Number (Fin x) \<Rightarrow> [x] | _ \<Rightarrow> []) js)"
proof (induction js)
  case Nil
  show ?case by simp
next
  case (Cons j js)
  then show ?case by (cases "f j" rule: isFinite.cases) simp_all
qed

lemma guard_case:
  "(case (if isFinite v then v else Null) of Number (Fin x) \<Rightarrow> [x] | _ \<Rightarrow> []) =
   (case v of Number (Fin x) \<Rightarrow> [x] | _ \<Rightarrow> [])"
  by (cases v rule: isFinite.cases) simp_all

lemma window_eq:
  assumes "i < length cd"
  shows "finiteVals (js_slice (nat (max 0 (int i - int 3 + 1))) (i + 1)
            (map (\<lambda>d. if isFinite (actual d) then actual d else Null) cd))
         = finiteVals (map (\<lambda>j. actual (cd ! j)) [i - 2..<i + 1])"
proof -
  have s: "nat (max 0 (int i - int 3 + 1)) = i - 2" by simp
  have "concat (map (\<lambda>j. case map (\<lambda>d. if isFinite (actual d) then actual d else Null) cd ! j of
                           Number (Fin x) \<Rightarrow> [x] | _ \<Rightarrow> []) [i - 2..<i + 1])
        = concat (map (\<lambda>j. case actual (cd ! j) of Number (Fin x) \<Rightarrow> [x] | _ \<Rightarrow> []) [i - 2..<i + 1])"
  proof (intro arg_cong[where f=concat] map_cong refl)
    fix j assume "j \<in> set [i - 2..<i + 1]"
    then have "j < length cd" using assms by auto
    then show "(case map (\<lambda>d. if isFinite (actual d) then actual d else Null) cd ! j of
                  Number (Fin x) \<Rightarrow> [x] | _ \<Rightarrow> [])
               = (case actual (cd ! j) of Number (Fin x) \<Rightarrow> [x] | _ \<Rightarrow> [])"
      by (simp add: guard_case)
  qed
  then show ?thesis
    using assms unfolding s
    by (simp add: js_slice_nth finiteVals_map del: upt_Suc)
qed

lemma movingAverage_nth:
  assumes "i < length cd"
  shows "movingAverage (map (\<lambda>d. if isFinite (actual d) then actual d else Null) cd) 3 ! i
         = mean_or_null (finiteVals (map (\<lambda>j. actual (cd ! j)) [i - 2..<i + 1]))"
  using assms window_eq[OF assms]
  by (simp add: movingAverage_def Let_def del: upt_Suc)

lemma enrichedData_length: "length (enrichedData cd a b) = length cd"
  by (simp add: enrichedData_def Let_def length_mom_loop length_set_ma3)

lemma enrichedData_nth:
  assumes "i < length cd"
  shows "enrichedData cd a b ! i =
     (cd ! i)\<lparr>ma3 := (if a then mean_or_null (finiteVals (map (\<lambda>j. actual (cd ! j)) [i - 2..<i + 1]))
                      else ma3 (cd ! i)),
              mom := (if b \<and> 0 < i then mom_at cd i else mom (cd ! i))\<rparr>"
proof -
  let ?d1 = "if a then set_ma3 cd (movingAverage (map (\<lambda>d. if isFinite (actual d) then actual d else Null) cd) 3) else cd"
  have l1: "length ?d1 = length cd" by (simp add: length_set_ma3)
  have n1: "?d1 ! j = (cd ! j)\<lparr>ma3 := (if a then mean_or_null (finiteVals (map (\<lambda>k. actual (cd ! k)) [j - 2..<j + 1]))
                                      else ma3 (cd ! j))\<rparr>"
    if "j < length cd" for j
    using that by (simp add: set_ma3_nth length_movingAverage movingAverage_nth)
  have m1: "mom_at ?d1 j = mom_at cd j" if "j < length cd" for j
  proof -
    have "j - 1 < length cd" using that by simp
    then show ?thesis using that n1[of j] n1[of "j - 1"] by (simp add: mom_at_def)
  qed
  have e: "enrichedData cd a b = (if b then mom_loop 1 ?d1 else ?d1)"
    by (simp add: enrichedData_def Let_def)
  show ?thesis
  proof (cases b)
    case False
    then show ?thesis using e n1[OF assms] by simp
  next
    case True
    have "mom_loop 1 ?d1 ! i = (if i < 1 then ?d1 ! i else (?d1 ! i)\<lparr>mom := mom_at ?d1 i\<rparr>)"
      using assms l1 by (intro mom_loop_nth) simp_all
    then show ?thesis using True e n1[OF assms] m1[OF assms] by (cases "i = 0") simp_all
  qed
qed


lemma momValue_case:
  "momValue p c = (case (c, p) of (Number (Fin y), Number (Fin x)) \<Rightarrow> Number (fl_sub (Fin y) (Fin x)) | _ \<Rightarrow> Null)"
  by (cases "(p, c)" rule: momValue.cases) (simp_all split: jsval.splits jsnum.splits)

lemma mom_at_spec: "mom_at rows i = spec_mom rows i"
  unfolding mom_at_def spec_mom_def by (rule momValue_case)

section \<open>Nearest horizon: properties\<close>

text \<open>
  C1. For every month distance \<open>m\<close> that is a non-negative integer and the candidates
  \<open>[1, 3, 6]\<close>, the reduce in \<open>onSearch\<close> returns a horizon \<open>h\<close> of the array that
  minimises \<open>|h - m|\<close>, and among the horizons at that minimal distance the smallest
  one (the first of the array); for \<open>m = 2\<close> the result is 1.
\<close>

theorem nearestHorizon_minimal:
  "(\<exists>h. Fin h \<in> set candidates
        \<and> nearestHorizon (Fin (real n)) candidates = Number (Fin h)
        \<and> (\<forall>h'. Fin h' \<in> set candidates \<longrightarrow>
               \<bar>h - real n\<bar> \<le> \<bar>h' - real n\<bar>
               \<and> (\<bar>h' - real n\<bar> = \<bar>h - real n\<bar> \<longrightarrow> h \<le> h')))
   \<and> nearestHorizon (Fin 2) candidates = Number (Fin 1)"
proof -
  let ?h = "if n \<le> 2 then 1 else if n \<le> 4 then 3 else (6::real)"
  have r: "nearestHorizon (Fin (real n)) candidates = Number (Fin ?h)"
    by (rule nearest_cases)
  have m: "Fin ?h \<in> set candidates" by (simp add: candidates_def)
  have b: "\<bar>?h - real n\<bar> \<le> \<bar>h' - real n\<bar> \<and> (\<bar>h' - real n\<bar> = \<bar>?h - real n\<bar> \<longrightarrow> ?h \<le> h')"
    if "Fin h' \<in> set candidates" for h'
    using that by (auto simp: candidates_def)
  have two: "nearestHorizon (Fin 2) candidates = Number (Fin 1)"
    using nearest_cases[of 2] by simp
  show ?thesis using r m b two by blast
qed

theorem nearestHorizon_minimal_witness:
  "nearestHorizon (Fin (real (4::nat))) candidates = Number (Fin 3)
   \<and> nearestHorizon (Fin 2) candidates = Number (Fin 1)"
  using nearestHorizon_minimal [of 4] by (auto simp: candidates_def)

text \<open>
  C8. The month distance is clamped at 0: when the target date is at or before the last
  known date (both valid dates), \<open>monthsBetween\<close> is 0, and the reduce over \<open>[1, 3, 6]\<close>
  then returns the smallest horizon, 1.
\<close>

theorem monthsBetween_clamped:
  "wf_date (newDate lastKnown) \<Longrightarrow> wf_date (newDate target) \<Longrightarrow>
   date_le (newDate target) (newDate lastKnown) \<Longrightarrow>
   monthsBetween newDate lastKnown target = Fin 0
   \<and> nearestHorizon (monthsBetween newDate lastKnown target) candidates = Number (Fin 1)"
  using nearest_cases[of 0] by (simp add: monthsBetween_zero)

theorem monthsBetween_clamped_witness:
  "monthsBetween (\<lambda>s. if s = ''2024-03-01'' then LocalDate 2024 2 1
                       else if s = ''2023-12-15'' then LocalDate 2023 11 15 else InvalidDate)
      ''2024-03-01'' ''2023-12-15'' = Fin 0
   \<and> nearestHorizon (monthsBetween (\<lambda>s. if s = ''2024-03-01'' then LocalDate 2024 2 1
                       else if s = ''2023-12-15'' then LocalDate 2023 11 15 else InvalidDate)
      ''2024-03-01'' ''2023-12-15'') candidates = Number (Fin 1)"
  by (rule monthsBetween_clamped) simp_all

section \<open>Series merger: properties\<close>

lemma sorted_le_last: "sorted xs \<Longrightarrow> x \<in> set xs \<Longrightarrow> x \<le> last (xs :: 'a::linorder list)"
  by (induction xs) auto

lemma sorted_concat_after_last:
  fixes xs ys :: "'a::linorder list"
  assumes "sorted xs" "sorted ys" "xs \<noteq> [] \<longrightarrow> (\<forall>y\<in>set ys. last xs \<le> y)"
  shows "sorted (xs @ ys)"
proof -
  have "x \<le> y" if "x \<in> set xs" "y \<in> set ys" for x y
  proof -
    have "xs \<noteq> []" using that(1) by auto
    then have "last xs \<le> y" using assms(3) that(2) by blast
    moreover have "x \<le> last xs" using assms(1) that(1) by (rule sorted_le_last)
    ultimately show ?thesis by simp
  qed
  then show ?thesis using assms(1,2) by (simp add: sorted_append)
qed

lemma date_histRow: "date \<circ> histRow = pt_date"
  by (rule ext) (simp add: histRow_def)

lemma date_foreRow: "date \<circ> foreRow = fp_date"
  by (rule ext) (simp add: foreRow_def)

lemma date_histRow_dashboard: "date \<circ> histRow_dashboard = pt_date"
  by (rule ext) (simp add: histRow_dashboard_def)

lemma date_futRow: "date \<circ> futRow = fut_date"
  by (rule ext) (simp add: futRow_def)

text \<open>
  C3. The merger puts the observed rows first, in the order fetched, each with its date
  and its \<open>actual\<close> value and no forecast, and the forecast rows after them, in the order
  given (the dashboard pushes the 1-, 3- and 6-month points in that order), each with
  its date and its \<open>forecast\<close> value and no actual value; nothing is sorted again. So
  when the observed dates are non-decreasing, the forecast dates are non-decreasing and
  none of them precedes the last observed date, the dates of the merged series are
  non-decreasing from end to end. This holds of \<open>chartData\<close> in CustomerPlanner and
  in ForecastDashboard.
\<close>

theorem chartData_merge_order:
  fixes hist :: "('d::linorder) point list"
  shows
  "(\<forall>i<length hist.
       date (chartData hist fbundle ! i) = pt_date (hist ! i)
       \<and> actual (chartData hist fbundle ! i) = pt_y (hist ! i)
       \<and> forecast (chartData hist fbundle ! i) = Undefined
       \<and> date (chartData_dashboard hist futs ! i) = pt_date (hist ! i)
       \<and> actual (chartData_dashboard hist futs ! i) = pt_y (hist ! i)
       \<and> forecast (chartData_dashboard hist futs ! i) = Null)
   \<and> (fbundle ''6'' = Some fore \<longrightarrow>
        length (chartData hist fbundle) = length hist + length fore
        \<and> (\<forall>j<length fore.
              date (chartData hist fbundle ! (length hist + j)) = fp_date (fore ! j)
              \<and> forecast (chartData hist fbundle ! (length hist + j)) = yhat (fore ! j)
              \<and> actual (chartData hist fbundle ! (length hist + j)) = Undefined)
        \<and> (sorted (map pt_date hist) \<and> sorted (map fp_date fore)
             \<and> (hist \<noteq> [] \<longrightarrow> (\<forall>p\<in>set fore. pt_date (last hist) \<le> fp_date p))
            \<longrightarrow> sorted (map date (chartData hist fbundle))))
   \<and> (fbundle ''6'' = None \<longrightarrow> chartData hist fbundle = map histRow hist)
   \<and> length (chartData_dashboard hist futs) = length hist + length futs
   \<and> (\<forall>j<length futs.
          date (chartData_dashboard hist futs ! (length hist + j)) = fut_date (futs ! j)
          \<and> forecast (chartData_dashboard hist futs ! (length hist + j)) = fut_forecast (futs ! j)
          \<and> actual (chartData_dashboard hist futs ! (length hist + j)) = Null)
   \<and> (sorted (map pt_date hist) \<and> sorted (map fut_date futs)
        \<and> (hist \<noteq> [] \<longrightarrow> (\<forall>p\<in>set futs. pt_date (last hist) \<le> fut_date p))
       \<longrightarrow> sorted (map date (chartData_dashboard hist futs)))
   \<and> (notNull (pred_1m k) \<and> notNull (pred_3m k) \<and> notNull (pred_6m k)
        \<and> future_dates k ''1m'' = Some d1 \<and> future_dates k ''3m'' = Some d3
        \<and> future_dates k ''6m'' = Some d6
       \<longrightarrow> futurePoints k = [\<lparr>fut_date = d1, fut_forecast = pred_1m k\<rparr>,
                               \<lparr>fut_date = d3, fut_forecast = pred_3m k\<rparr>,
                               \<lparr>fut_date = d6, fut_forecast = pred_6m k\<rparr>])"
proof -
  have A: "\<forall>i<length hist.
       date (chartData hist fbundle ! i) = pt_date (hist ! i)
       \<and> actual (chartData hist fbundle ! i) = pt_y (hist ! i)
       \<and> forecast (chartData hist fbundle ! i) = Undefined
       \<and> date (chartData_dashboard hist futs ! i) = pt_date (hist ! i)
       \<and> actual (chartData_dashboard hist futs ! i) = pt_y (hist ! i)
       \<and> forecast (chartData_dashboard hist futs ! i) = Null"
    by (simp add: chartData_def chartData_dashboard_def Let_def nth_append histRow_def
          histRow_dashboard_def)
  have B: "length (chartData hist fbundle) = length hist + length fore
        \<and> (\<forall>j<length fore.
              date (chartData hist fbundle ! (length hist + j)) = fp_date (fore ! j)
              \<and> forecast (chartData hist fbundle ! (length hist + j)) = yhat (fore ! j)
              \<and> actual (chartData hist fbundle ! (length hist + j)) = Undefined)"
    if "fbundle ''6'' = Some fore"
    using that by (simp add: chartData_def Let_def nth_append foreRow_def)
  have C: "sorted (map date (chartData hist fbundle))"
    if "fbundle ''6'' = Some fore" "sorted (map pt_date hist)" "sorted (map fp_date fore)"
       "hist \<noteq> [] \<longrightarrow> (\<forall>p\<in>set fore. pt_date (last hist) \<le> fp_date p)"
  proof -
    have "sorted (map pt_date hist @ map fp_date fore)"
      using that(2,3,4) by (intro sorted_concat_after_last) (auto simp: last_map)
    then show ?thesis
      using that(1) by (simp add: chartData_def Let_def date_histRow date_foreRow)
  qed
  have D: "fbundle ''6'' = None \<longrightarrow> chartData hist fbundle = map histRow hist"
    by (simp add: chartData_def Let_def)
  have E: "length (chartData_dashboard hist futs) = length hist + length futs
   \<and> (\<forall>j<length futs.
          date (chartData_dashboard hist futs ! (length hist + j)) = fut_date (futs ! j)
          \<and> forecast (chartData_dashboard hist futs ! (length hist + j)) = fut_forecast (futs ! j)
          \<and> actual (chartData_dashboard hist futs ! (length hist + j)) = Null)"
    by (simp add: chartData_dashboard_def Let_def nth_append futRow_def)
  have F: "sorted (map date (chartData_dashboard hist futs))"
    if "sorted (map pt_date hist)" "sorted (map fut_date futs)"
       "hist \<noteq> [] \<longrightarrow> (\<forall>p\<in>set futs. pt_date (last hist) \<le> fut_date p)"
  proof -
    have "sorted (map pt_date hist @ map fut_date futs)"
      using that by (intro sorted_concat_after_last) (auto simp: last_map)
    then show ?thesis
      by (simp add: chartData_dashboard_def Let_def date_histRow_dashboard date_futRow)
  qed
  have G: "futurePoints k = [\<lparr>fut_date = d1, fut_forecast = pred_1m k\<rparr>,
                               \<lparr>fut_date = d3, fut_forecast = pred_3m k\<rparr>,
                               \<lparr>fut_date = d6, fut_forecast = pred_6m k\<rparr>]"
    if "notNull (pred_1m k) \<and> notNull (pred_3m k) \<and> notNull (pred_6m k)
        \<and> future_dates k ''1m'' = Some d1 \<and> future_dates k ''3m'' = Some d3
        \<and> future_dates k ''6m'' = Some d6"
    using that by (simp add: futurePoints_def futurePoint_def)
  show ?thesis
    apply (intro conjI impI)
    subgoal by (rule A)
    subgoal using B by blast
    subgoal using B by blast
    subgoal using C by blast
    subgoal using D by blast
    subgoal using E by blast
    subgoal using E by blast
    subgoal using F by blast
    subgoal using G by blast
    done
qed


theorem chartData_merge_order_witness:
  "map date (chartData
      [\<lparr>pt_date = 202401::nat, pt_y = Number (Fin 100)\<rparr>,
       \<lparr>pt_date = 202402, pt_y = Number (Fin 105)\<rparr>,
       \<lparr>pt_date = 202403, pt_y = Number (Fin 98)\<rparr>]
      [''6'' \<mapsto> [\<lparr>fp_date = 202409, yhat = Number (Fin 102), fp_lo = Null, fp_hi = Null\<rparr>]])
    = [202401, 202402, 202403, 202409]
   \<and> sorted (map date (chartData
      [\<lparr>pt_date = 202401::nat, pt_y = Number (Fin 100)\<rparr>,
       \<lparr>pt_date = 202402, pt_y = Number (Fin 105)\<rparr>,
       \<lparr>pt_date = 202403, pt_y = Number (Fin 98)\<rparr>]
      [''6'' \<mapsto> [\<lparr>fp_date = 202409, yhat = Number (Fin 102), fp_lo = Null, fp_hi = Null\<rparr>]]))
   \<and> sorted (map date (chartData_dashboard
      [\<lparr>pt_date = 202401::nat, pt_y = Number (Fin 100)\<rparr>,
       \<lparr>pt_date = 202402, pt_y = Number (Fin 105)\<rparr>,
       \<lparr>pt_date = 202403, pt_y = Number (Fin 98)\<rparr>]
      [\<lparr>fut_date = 202404, fut_forecast = Number (Fin 102)\<rparr>]))"
proof -
  let ?H = "[\<lparr>pt_date = 202401::nat, pt_y = Number (Fin 100)\<rparr>,
       \<lparr>pt_date = 202402, pt_y = Number (Fin 105)\<rparr>,
       \<lparr>pt_date = 202403, pt_y = Number (Fin 98)\<rparr>]"
  let ?F = "[\<lparr>fp_date = 202409::nat, yhat = Number (Fin 102), fp_lo = Null, fp_hi = Null\<rparr>]"
  let ?B = "[''6'' \<mapsto> ?F]"
  let ?P = "[\<lparr>fut_date = 202404::nat, fut_forecast = Number (Fin 102)\<rparr>]"
  note T = chartData_merge_order [where hist = ?H and fbundle = ?B and fore = ?F and futs = ?P]
  have b: "?B ''6'' = Some ?F" by simp
  note T1 = T [THEN conjunct2, THEN conjunct1, THEN mp, OF b]
  have s1: "sorted (map date (chartData ?H ?B))"
    by (rule T1 [THEN conjunct2, THEN conjunct2, THEN mp]) simp
  have s2: "sorted (map date (chartData_dashboard ?H ?P))"
    by (rule T [THEN conjunct2, THEN conjunct2, THEN conjunct2, THEN conjunct2,
                THEN conjunct2, THEN conjunct1, THEN mp]) simp
  have s3: "map date (chartData ?H ?B) = [202401, 202402, 202403, 202409]"
    by (simp add: chartData_def histRow_def foreRow_def)
  show ?thesis using s1 s2 s3 by blast
qed

section \<open>Enrichment: properties\<close>

lemma rnd_small_values:
  "rnd 100 = Fin 100" "rnd 110 = Fin 110" "rnd 115 = Fin 115" "rnd 210 = Fin 210"
  "rnd 230 = Fin 230" "rnd 330 = Fin 330" "rnd 4 = Fin 4"
  using rnd_of_int [of 100] rnd_of_int [of 110] rnd_of_int [of 115] rnd_of_int [of 210]
    rnd_of_int [of 230] rnd_of_int [of 330] rnd_of_int [of 4]
  by simp_all

text \<open>
  C6, as the code has it. With the moving average switched on, the \<open>ma3\<close> value of row
  \<open>i\<close> is the mean of the finite \<open>actual\<close> values found in the three rows \<open>i - 2\<close> to
  \<open>i\<close> (fewer rows near the start): the window is three rows, and a row whose value
  is not finite counts neither in the sum nor in the denominator, and is not replaced
  by an earlier row. The value is \<open>null\<close> when none of these rows has a finite value.
  The mean is the sum, added from the left starting at 0, divided by the count. For the
  one-element sequence \<open>[100]\<close> the average at index 0 is 100; for \<open>[null, null]\<close> it is
  \<open>null\<close> at both indices.
\<close>

theorem ma3_window:
  "(i < length cd \<longrightarrow>
      ma3 (enrichedData cd True changeView ! i)
        = mean_or_null (finiteVals (map (\<lambda>j. actual (cd ! j)) [i - 2..<i + 1]))
      \<and> ma3 (enriched cd True changeView ! i)
        = mean_or_null (finiteVals (map (\<lambda>j. actual (cd ! j)) [i - 2..<i + 1])))
   \<and> mean_or_null [] = Null
   \<and> mean_or_null (x # xs)
       = Number (fl_div (foldl (\<lambda>a b. fl_add a (Fin b)) (Fin 0) (x # xs))
                        (real (length (x # xs))))
   \<and> movingAverage [Number (Fin 100)] 3 = [Number (Fin 100)]
   \<and> movingAverage [Null, Null] 3 = [Null, Null]"
proof -
  have "[0..<2] = [0, 1]" by (simp add: upt_rec)
  then have "movingAverage [Null, Null] 3 = [Null, Null]"
    by (simp add: movingAverage_def js_slice_def mean_or_null_def Let_def)
  moreover have "movingAverage [Number (Fin 100)] 3 = [Number (Fin 100)]"
    by (simp add: movingAverage_def js_slice_def mean_or_null_def Let_def rnd_small_values)
  moreover have "mean_or_null [] = Null"
    by (simp add: mean_or_null_def)
  moreover have "mean_or_null (x # xs)
       = Number (fl_div (foldl (\<lambda>a b. fl_add a (Fin b)) (Fin 0) (x # xs))
                        (real (length (x # xs))))"
    by (simp add: mean_or_null_def)
  ultimately show ?thesis
    by (simp add: enriched_eq enrichedData_nth del: upt_Suc)
qed

theorem ma3_window_witness:
  "ma3 (enrichedData
      [\<lparr>date = 1::nat, actual = Number (Fin 100), forecast = Undefined, lo = Undefined,
        hi = Undefined, ma3 = Undefined, mom = Undefined\<rparr>,
       \<lparr>date = 2, actual = Null, forecast = Undefined, lo = Undefined,
        hi = Undefined, ma3 = Undefined, mom = Undefined\<rparr>,
       \<lparr>date = 3, actual = Number (Fin 110), forecast = Undefined, lo = Undefined,
        hi = Undefined, ma3 = Undefined, mom = Undefined\<rparr>,
       \<lparr>date = 4, actual = Number (Fin 120), forecast = Undefined, lo = Undefined,
        hi = Undefined, ma3 = Undefined, mom = Undefined\<rparr>] True False ! 3)
   = Number (Fin 115)"
proof -
  have u: "[Suc 0..<4] = [1, 2, 3]" by (simp add: upt_rec)
  have h: "3 < length [\<lparr>date = 1::nat, actual = Number (Fin 100), forecast = Undefined, lo = Undefined,
        hi = Undefined, ma3 = Undefined, mom = Undefined\<rparr>,
       \<lparr>date = 2, actual = Null, forecast = Undefined, lo = Undefined,
        hi = Undefined, ma3 = Undefined, mom = Undefined\<rparr>,
       \<lparr>date = 3, actual = Number (Fin 110), forecast = Undefined, lo = Undefined,
        hi = Undefined, ma3 = Undefined, mom = Undefined\<rparr>,
       \<lparr>date = 4, actual = Number (Fin 120), forecast = Undefined, lo = Undefined,
        hi = Undefined, ma3 = Undefined, mom = Undefined\<rparr>]"
    by simp
  note T = ma3_window [where i = 3 and changeView = False and cd = "[\<lparr>date = 1::nat, actual = Number (Fin 100), forecast = Undefined, lo = Undefined,
        hi = Undefined, ma3 = Undefined, mom = Undefined\<rparr>,
       \<lparr>date = 2, actual = Null, forecast = Undefined, lo = Undefined,
        hi = Undefined, ma3 = Undefined, mom = Undefined\<rparr>,
       \<lparr>date = 3, actual = Number (Fin 110), forecast = Undefined, lo = Undefined,
        hi = Undefined, ma3 = Undefined, mom = Undefined\<rparr>,
       \<lparr>date = 4, actual = Number (Fin 120), forecast = Undefined, lo = Undefined,
        hi = Undefined, ma3 = Undefined, mom = Undefined\<rparr>]",
      THEN conjunct1, THEN mp, OF h, THEN conjunct1]
  show ?thesis
    unfolding T by (simp add: u mean_or_null_def rnd_small_values)
qed

text \<open>
  C6 as stated takes the last three finite values, however far back they lie. On the
  chart of three observed prices 100, 110, 120 followed by one forecast row, the
  forecast row (index 3) has no \<open>actual\<close> value: the code averages the two finite
  values of the rows 1 to 3 and gives 115, where the last three finite values ending
  at that row, 100, 110 and 120, have the mean 110.
\<close>

theorem ma3_not_last_three_finite:
  "ma3 (enrichedData (chartData
       [\<lparr>pt_date = 202401::nat, pt_y = Number (Fin 100)\<rparr>,
        \<lparr>pt_date = 202402, pt_y = Number (Fin 110)\<rparr>,
        \<lparr>pt_date = 202403, pt_y = Number (Fin 120)\<rparr>]
       [''6'' \<mapsto> [\<lparr>fp_date = 202409, yhat = Number (Fin 125), fp_lo = Null, fp_hi = Null\<rparr>]]) True False ! 3) = Number (Fin 115)
   \<and> last3_finite_mean (map actual (chartData
       [\<lparr>pt_date = 202401::nat, pt_y = Number (Fin 100)\<rparr>,
        \<lparr>pt_date = 202402, pt_y = Number (Fin 110)\<rparr>,
        \<lparr>pt_date = 202403, pt_y = Number (Fin 120)\<rparr>]
       [''6'' \<mapsto> [\<lparr>fp_date = 202409, yhat = Number (Fin 125), fp_lo = Null, fp_hi = Null\<rparr>]])) 3 = Number (Fin 110)
   \<and> ma3 (enrichedData (chartData
       [\<lparr>pt_date = 202401::nat, pt_y = Number (Fin 100)\<rparr>,
        \<lparr>pt_date = 202402, pt_y = Number (Fin 110)\<rparr>,
        \<lparr>pt_date = 202403, pt_y = Number (Fin 120)\<rparr>]
       [''6'' \<mapsto> [\<lparr>fp_date = 202409, yhat = Number (Fin 125), fp_lo = Null, fp_hi = Null\<rparr>]]) True False ! 3)
     \<noteq> last3_finite_mean (map actual (chartData
       [\<lparr>pt_date = 202401::nat, pt_y = Number (Fin 100)\<rparr>,
        \<lparr>pt_date = 202402, pt_y = Number (Fin 110)\<rparr>,
        \<lparr>pt_date = 202403, pt_y = Number (Fin 120)\<rparr>]
       [''6'' \<mapsto> [\<lparr>fp_date = 202409, yhat = Number (Fin 125), fp_lo = Null, fp_hi = Null\<rparr>]])) 3"
proof -
  let ?R = "chartData
       [\<lparr>pt_date = 202401::nat, pt_y = Number (Fin 100)\<rparr>,
        \<lparr>pt_date = 202402, pt_y = Number (Fin 110)\<rparr>,
        \<lparr>pt_date = 202403, pt_y = Number (Fin 120)\<rparr>]
       [''6'' \<mapsto> [\<lparr>fp_date = 202409, yhat = Number (Fin 125), fp_lo = Null, fp_hi = Null\<rparr>]]"
  have R: "?R =
     [\<lparr>date = 202401, actual = Number (Fin 100), forecast = Undefined, lo = Undefined,
        hi = Undefined, ma3 = Undefined, mom = Undefined\<rparr>,
      \<lparr>date = 202402, actual = Number (Fin 110), forecast = Undefined, lo = Undefined,
        hi = Undefined, ma3 = Undefined, mom = Undefined\<rparr>,
      \<lparr>date = 202403, actual = Number (Fin 120), forecast = Undefined, lo = Undefined,
        hi = Undefined, ma3 = Undefined, mom = Undefined\<rparr>,
      \<lparr>date = 202409, actual = Undefined, forecast = Number (Fin 125), lo = Null,
        hi = Null, ma3 = Undefined, mom = Undefined\<rparr>]"
    by (simp add: chartData_def histRow_def foreRow_def)
  have u: "[Suc 0..<4] = [1, 2, 3]" by (simp add: upt_rec)
  have a: "ma3 (enrichedData ?R True False ! 3) = Number (Fin 115)"
    unfolding R by (simp add: enrichedData_nth u mean_or_null_def rnd_small_values)
  have b: "last3_finite_mean (map actual ?R) 3 = Number (Fin 110)"
    unfolding R by (simp add: last3_finite_mean_def mean_or_null_def rnd_small_values)
  show ?thesis using a b by simp
qed

lemma spec_mom_null:
  "\<not> (isFinite (nullish (actual (rows ! i)) (forecast (rows ! i)))
      \<and> isFinite (nullish (actual (rows ! (i - 1))) (forecast (rows ! (i - 1)))))
   \<Longrightarrow> spec_mom rows i = Null"
  unfolding spec_mom_def
  by (cases "nullish (actual (rows ! i)) (forecast (rows ! i))" rule: isFinite.cases;
      cases "nullish (actual (rows ! (i - 1))) (forecast (rows ! (i - 1)))" rule: isFinite.cases)
     simp_all

lemma spec_mom_diff:
  "nullish (actual (rows ! i)) (forecast (rows ! i)) = Number (Fin c) \<Longrightarrow>
   nullish (actual (rows ! (i - 1))) (forecast (rows ! (i - 1))) = Number (Fin p) \<Longrightarrow>
   spec_mom rows i = Number (fl_sub (Fin c) (Fin p))"
  by (simp add: spec_mom_def)

lemma mom_enrichedData:
  "i < length cd \<Longrightarrow>
   mom (enrichedData cd a True ! i) = (if i = 0 then mom (cd ! 0) else spec_mom cd i)"
  by (simp add: enrichedData_nth mom_at_spec)

lemma mom_chartData: "i < length (chartData hist bndl) \<Longrightarrow> mom (chartData hist bndl ! i) = Undefined"
  by (auto simp: chartData_def Let_def nth_append histRow_def foreRow_def split: option.splits)

lemma mom_chartData_dashboard:
  "i < length (chartData_dashboard hist futs) \<Longrightarrow> mom (chartData_dashboard hist futs ! i) = Undefined"
  by (auto simp: chartData_dashboard_def Let_def nth_append histRow_dashboard_def futRow_def)

text \<open>
  C7. With the change view switched on, the \<open>mom\<close> value of every row after the first
  is \<open>current.(actual ?? forecast) - previous.(actual ?? forecast)\<close>, the subtraction
  of doubles, and \<open>null\<close> when either side is not a finite number. The loop starts at index 1: the first row keeps
  the \<open>mom\<close> it came with, which for a row of \<open>chartData\<close> is none (\<open>undefined\<close>).
\<close>

theorem mom_spec:
  "(0 < i \<and> i < length cd \<longrightarrow>
      mom (enrichedData cd showMA True ! i) = spec_mom cd i
      \<and> mom (enriched cd showMA True ! i) = spec_mom cd i
      \<and> (\<forall>c p. nullish (actual (cd ! i)) (forecast (cd ! i)) = Number (Fin c)
               \<and> nullish (actual (cd ! (i - 1))) (forecast (cd ! (i - 1))) = Number (Fin p)
               \<longrightarrow> mom (enrichedData cd showMA True ! i) = Number (fl_sub (Fin c) (Fin p)))
      \<and> (\<not> (isFinite (nullish (actual (cd ! i)) (forecast (cd ! i)))
              \<and> isFinite (nullish (actual (cd ! (i - 1))) (forecast (cd ! (i - 1)))))
           \<longrightarrow> mom (enrichedData cd showMA True ! i) = Null))
   \<and> (cd \<noteq> [] \<longrightarrow>
        mom (enrichedData cd showMA True ! 0) = mom (cd ! 0)
        \<and> mom (enriched cd showMA True ! 0) = mom (cd ! 0))
   \<and> (chartData hist fbundle \<noteq> [] \<longrightarrow>
        mom (enrichedData (chartData hist fbundle) showMA True ! 0) = Undefined)
   \<and> (chartData_dashboard hist futs \<noteq> [] \<longrightarrow>
        mom (enriched (chartData_dashboard hist futs) showMA True ! 0) = Undefined)"
proof -
  have A: "mom (enrichedData cd showMA True ! i) = spec_mom cd i" if "0 < i" "i < length cd"
    using that by (simp add: mom_enrichedData)
  have B: "mom (enrichedData cd showMA True ! i) = Number (fl_sub (Fin c) (Fin p))"
    if "0 < i" "i < length cd"
       "nullish (actual (cd ! i)) (forecast (cd ! i)) = Number (Fin c)"
       "nullish (actual (cd ! (i - 1))) (forecast (cd ! (i - 1))) = Number (Fin p)" for c p
    using A[OF that(1,2)] spec_mom_diff[OF that(3,4)] by simp
  have C: "mom (enrichedData cd showMA True ! i) = Null"
    if "0 < i" "i < length cd"
       "\<not> (isFinite (nullish (actual (cd ! i)) (forecast (cd ! i)))
              \<and> isFinite (nullish (actual (cd ! (i - 1))) (forecast (cd ! (i - 1)))))"
    using A[OF that(1,2)] spec_mom_null[OF that(3)] by simp
  have D: "mom (enrichedData cd showMA True ! 0) = mom (cd ! 0)" if "cd \<noteq> []"
    using that by (simp add: mom_enrichedData)
  have E: "mom (enrichedData (chartData hist fbundle) showMA True ! 0) = Undefined"
    if "chartData hist fbundle \<noteq> []"
    using that by (simp add: mom_enrichedData mom_chartData)
  have F: "mom (enriched (chartData_dashboard hist futs) showMA True ! 0) = Undefined"
    if "chartData_dashboard hist futs \<noteq> []"
    using that by (simp add: enriched_eq mom_enrichedData mom_chartData_dashboard)
  show ?thesis
    unfolding enriched_eq using A B C D E F [unfolded enriched_eq] by blast
qed

theorem mom_spec_witness:
  "mom (enrichedData
       [\<lparr>date = 202403::nat, actual = Number (Fin 98), forecast = Undefined, lo = Undefined,
          hi = Undefined, ma3 = Undefined, mom = Undefined\<rparr>,
        \<lparr>date = 202404, actual = Undefined, forecast = Number (Fin 102), lo = Null,
          hi = Null, ma3 = Undefined, mom = Undefined\<rparr>] False True ! 1) = Number (Fin 4)"
proof -
  let ?C = "[\<lparr>date = 202403::nat, actual = Number (Fin 98), forecast = Undefined, lo = Undefined,
          hi = Undefined, ma3 = Undefined, mom = Undefined\<rparr>,
        \<lparr>date = 202404, actual = Undefined, forecast = Number (Fin 102), lo = Null,
          hi = Null, ma3 = Undefined, mom = Undefined\<rparr>]"
  note T = mom_spec [where i = 1 and cd = ?C and showMA = False]
  have h: "0 < (1::nat) \<and> 1 < length ?C" by simp
  have "mom (enrichedData ?C False True ! 1) = spec_mom ?C 1"
    by (rule T [THEN conjunct1, THEN mp, OF h, THEN conjunct1])
  then show ?thesis by (simp add: spec_mom_def rnd_small_values)
qed

lemma enrichedData_frame:
  assumes "i < length cd"
  shows "date (enrichedData cd a b ! i) = date (cd ! i)
       \<and> actual (enrichedData cd a b ! i) = actual (cd ! i)
       \<and> forecast (enrichedData cd a b ! i) = forecast (cd ! i)
       \<and> lo (enrichedData cd a b ! i) = lo (cd ! i)
       \<and> hi (enrichedData cd a b ! i) = hi (cd ! i)
       \<and> (\<exists>x y. enrichedData cd a b ! i = (cd ! i)\<lparr>ma3 := x, mom := y\<rparr>)
       \<and> (\<not> a \<longrightarrow> ma3 (enrichedData cd a b ! i) = ma3 (cd ! i))
       \<and> (\<not> b \<longrightarrow> mom (enrichedData cd a b ! i) = mom (cd ! i))"
proof -
  have "\<exists>x y. enrichedData cd a b ! i = (cd ! i)\<lparr>ma3 := x, mom := y\<rparr>"
    using enrichedData_nth [OF assms, of a b] by blast
  then show ?thesis using assms by (simp add: enrichedData_nth)
qed

text \<open>
  C10. The enrichment keeps the frame: for every series and every combination of the two
  flags the result has as many rows as the input, and every row is the input row with
  at most \<open>ma3\<close> and \<open>mom\<close> changed, so \<open>date\<close>, \<open>actual\<close>, \<open>forecast\<close>, \<open>lo\<close> and
  \<open>hi\<close> are what they were; a flag that is off leaves its field alone. The two
  components compute the same rows.
\<close>

theorem enrichment_frame:
  "length (enrichedData cd showMA changeView) = length cd
   \<and> length (enriched cd showMA changeView) = length cd
   \<and> (\<forall>i<length cd.
         date (enrichedData cd showMA changeView ! i) = date (cd ! i)
       \<and> actual (enrichedData cd showMA changeView ! i) = actual (cd ! i)
       \<and> forecast (enrichedData cd showMA changeView ! i) = forecast (cd ! i)
       \<and> lo (enrichedData cd showMA changeView ! i) = lo (cd ! i)
       \<and> hi (enrichedData cd showMA changeView ! i) = hi (cd ! i)
       \<and> (\<exists>x y. enrichedData cd showMA changeView ! i = (cd ! i)\<lparr>ma3 := x, mom := y\<rparr>)
       \<and> (\<not> showMA \<longrightarrow> ma3 (enrichedData cd showMA changeView ! i) = ma3 (cd ! i))
       \<and> (\<not> changeView \<longrightarrow> mom (enrichedData cd showMA changeView ! i) = mom (cd ! i))
       \<and> enriched cd showMA changeView ! i = enrichedData cd showMA changeView ! i)"
  using enrichedData_frame[of _ cd showMA changeView]
  by (simp add: enriched_eq enrichedData_length)

theorem enrichment_frame_witness:
  "length (enrichedData
       [\<lparr>date = 202403::nat, actual = Number (Fin 98), forecast = Undefined, lo = Undefined,
          hi = Undefined, ma3 = Undefined, mom = Undefined\<rparr>,
        \<lparr>date = 202404, actual = Undefined, forecast = Number (Fin 102), lo = Null,
          hi = Null, ma3 = Undefined, mom = Undefined\<rparr>] True True) = 2
   \<and> forecast (enrichedData
       [\<lparr>date = 202403::nat, actual = Number (Fin 98), forecast = Undefined, lo = Undefined,
          hi = Undefined, ma3 = Undefined, mom = Undefined\<rparr>,
        \<lparr>date = 202404, actual = Undefined, forecast = Number (Fin 102), lo = Null,
          hi = Null, ma3 = Undefined, mom = Undefined\<rparr>] True True ! 1) = Number (Fin 102)
   \<and> actual (enrichedData
       [\<lparr>date = 202403::nat, actual = Number (Fin 98), forecast = Undefined, lo = Undefined,
          hi = Undefined, ma3 = Undefined, mom = Undefined\<rparr>,
        \<lparr>date = 202404, actual = Undefined, forecast = Number (Fin 102), lo = Null,
          hi = Null, ma3 = Undefined, mom = Undefined\<rparr>] True True ! 1) = Undefined"
proof -
  let ?C = "[\<lparr>date = 202403::nat, actual = Number (Fin 98), forecast = Undefined, lo = Undefined,
          hi = Undefined, ma3 = Undefined, mom = Undefined\<rparr>,
        \<lparr>date = 202404, actual = Undefined, forecast = Number (Fin 102), lo = Null,
          hi = Null, ma3 = Undefined, mom = Undefined\<rparr>]"
  note T = enrichment_frame [where cd = ?C and showMA = True and changeView = True]
  have h: "1 < length ?C" by simp
  note R = T [THEN conjunct2, THEN conjunct2, rule_format, OF h]
  have "length (enrichedData ?C True True) = length ?C" by (rule T [THEN conjunct1])
  moreover have "forecast (enrichedData ?C True True ! 1) = forecast (?C ! 1)"
    by (rule R [THEN conjunct2, THEN conjunct2, THEN conjunct1])
  moreover have "actual (enrichedData ?C True True ! 1) = actual (?C ! 1)"
    by (rule R [THEN conjunct2, THEN conjunct1])
  ultimately show ?thesis by simp
qed

section \<open>QuickHorizons: properties\<close>

lemma predict_loop_fails:
  assumes "h \<in> set hs" "awaitJson (predict h) = Inl e0"
  shows "\<exists>h' e. h' \<in> set hs \<and> awaitJson (predict h') = Inl e
           \<and> (\<forall>x\<in>set (takeWhile (\<lambda>x. x \<noteq> h') hs). \<exists>j. awaitJson (predict x) = Inr j)
           \<and> predict_loop predict hs out = Inl e"
  using assms
proof (induction hs arbitrary: out)
  case Nil
  then show ?case by simp
next
  case (Cons a hs)
  show ?case
  proof (cases "awaitJson (predict a)")
    case (Inl e)
    then have "a \<in> set (a # hs) \<and> awaitJson (predict a) = Inl e
           \<and> (\<forall>x\<in>set (takeWhile (\<lambda>x. x \<noteq> a) (a # hs)). \<exists>j. awaitJson (predict x) = Inr j)
           \<and> predict_loop predict (a # hs) out = Inl e"
      by simp
    then show ?thesis by blast
  next
    case (Inr pj)
    then have "h \<noteq> a" using Cons.prems by auto
    then have "h \<in> set hs" using Cons.prems by simp
    from Cons.IH [OF this Cons.prems(2), of "out @ [mk_qrow a pj]"]
    obtain h' e where H: "h' \<in> set hs" "awaitJson (predict h') = Inl e"
        "\<forall>x\<in>set (takeWhile (\<lambda>x. x \<noteq> h') hs). \<exists>j. awaitJson (predict x) = Inr j"
        "predict_loop predict hs (out @ [mk_qrow a pj]) = Inl e"
      by blast
    have "h' \<noteq> a" using H(2) Inr by auto
    then have "h' \<in> set (a # hs) \<and> awaitJson (predict h') = Inl e
           \<and> (\<forall>x\<in>set (takeWhile (\<lambda>x. x \<noteq> h') (a # hs)). \<exists>j. awaitJson (predict x) = Inr j)
           \<and> predict_loop predict (a # hs) out = Inl e"
      using H Inr by auto
    then show ?thesis by blast
  qed
qed

lemma awaitJson_not_ok: "\<not> ok status \<Longrightarrow> awaitJson (Response status body) = Inl (HttpError status)"
  by simp

lemma planner_loop_skip:
  "\<not> ok status \<Longrightarrow> predict h = Response status body \<Longrightarrow>
   planner_loop predict (h # hs) out = planner_loop predict hs out"
  by simp

text \<open>
  C5, as the code has it. In QuickHorizons, when the series request has succeeded and
  the request of some horizon of \<open>[1, 3, 6]\<close> fails (it is rejected, its status is not
  ok, or its body cannot be read), the whole operation ends in the error state: \<open>err\<close>
  is the error of the first failing horizon in the order 1, 3, 6, and \<open>rows\<close> and \<open>meta\<close>
  are not replaced, so no partial list of summaries is stored (an effect cleaned up
  in the meantime stores nothing at all). The error of a status that is not ok is
  \<open>HTTP status\<close>: it carries the status, not the horizon. The forecast loop of
  CustomerPlanner skips a horizon whose status is not ok and goes on with the next.
\<close>

theorem QuickHorizons_fails_whole:
  "(commodity \<noteq> [] \<and> awaitJson series = Inr jj \<and> h \<in> set horizons
      \<and> awaitJson (predict h) = Inl e0 \<longrightarrow>
      (\<exists>h' e. h' \<in> set horizons \<and> awaitJson (predict h') = Inl e
         \<and> (\<forall>x\<in>set (takeWhile (\<lambda>x. x \<noteq> h') horizons). \<exists>j. awaitJson (predict x) = Inr j)
         \<and> QuickHorizons_go commodity series predict True s
             = s\<lparr>qh_loading := False, qh_err := Some e\<rparr>
         \<and> QuickHorizons_go commodity series predict False s
             = s\<lparr>qh_loading := True, qh_err := None\<rparr>))
   \<and> (\<not> ok status \<longrightarrow> awaitJson (Response status body) = Inl (HttpError status))
   \<and> (\<not> ok status \<and> predict h = Response status body' \<longrightarrow>
        planner_loop predict (h # hs) out = planner_loop predict hs out)"
proof -
  have A: "\<exists>h' e. h' \<in> set horizons \<and> awaitJson (predict h') = Inl e
         \<and> (\<forall>x\<in>set (takeWhile (\<lambda>x. x \<noteq> h') horizons). \<exists>j. awaitJson (predict x) = Inr j)
         \<and> QuickHorizons_go commodity series predict True s
             = s\<lparr>qh_loading := False, qh_err := Some e\<rparr>
         \<and> QuickHorizons_go commodity series predict False s
             = s\<lparr>qh_loading := True, qh_err := None\<rparr>"
    if c: "commodity \<noteq> []" and sr: "awaitJson series = Inr jj" and hh: "h \<in> set horizons"
      and f: "awaitJson (predict h) = Inl e0"
  proof -
    from predict_loop_fails [where predict = predict and h = h and out = "[]", OF hh f]
    obtain h' e where H: "h' \<in> set horizons" "awaitJson (predict h') = Inl e"
        "\<forall>x\<in>set (takeWhile (\<lambda>x. x \<noteq> h') horizons). \<exists>j. awaitJson (predict x) = Inr j"
        "predict_loop predict horizons [] = Inl e"
      by blast
    have q: "quick_try series predict = Inl e"
      using sr H(4) by (simp add: quick_try_def Let_def)
    have g1: "QuickHorizons_go commodity series predict True s
             = s\<lparr>qh_loading := False, qh_err := Some e\<rparr>"
      using c q by (simp add: QuickHorizons_go_def Let_def)
    have g2: "QuickHorizons_go commodity series predict False s
             = s\<lparr>qh_loading := True, qh_err := None\<rparr>"
      using c q by (simp add: QuickHorizons_go_def Let_def)
    show ?thesis using H(1,2,3) g1 g2 by blast
  qed
  show ?thesis
    using A awaitJson_not_ok planner_loop_skip by blast
qed


theorem QuickHorizons_fails_whole_witness:
  "QuickHorizons_go ''Rice'' (Response 200 (Inr (Some [\<lparr>pt_date = 202403::nat, pt_y = Number (Fin 98)\<rparr>])))
      (\<lambda>h. if h = 3 then Response 503 (Inr \<lparr>future_date_h = Str ''2024-06-01'', pred_h = Number (Fin 102)\<rparr>) else Response 200 (Inr \<lparr>future_date_h = Str ''2024-06-01'', pred_h = Number (Fin 102)\<rparr>)) True \<lparr>qh_rows = [], qh_meta = None, qh_loading = False, qh_err = None\<rparr>
   = \<lparr>qh_rows = [], qh_meta = None, qh_loading = False, qh_err = None\<rparr>\<lparr>qh_loading := False, qh_err := Some (HttpError 503)\<rparr>"
proof -
  let ?P = "(\<lambda>h. if h = 3 then Response 503 (Inr \<lparr>future_date_h = Str ''2024-06-01'', pred_h = Number (Fin 102)\<rparr>) else Response 200 (Inr \<lparr>future_date_h = Str ''2024-06-01'', pred_h = Number (Fin 102)\<rparr>))"
  let ?S = "(Response 200 (Inr (Some [\<lparr>pt_date = 202403::nat, pt_y = Number (Fin 98)\<rparr>])))"
  let ?s = "\<lparr>qh_rows = [], qh_meta = None, qh_loading = False, qh_err = None\<rparr> :: nat qh_state"
  note T = QuickHorizons_fails_whole [where commodity = "''Rice''" and series = ?S
      and jj = "Some [\<lparr>pt_date = 202403::nat, pt_y = Number (Fin 98)\<rparr>]"
      and h = 3 and predict = ?P and ?e0.0 = "HttpError 503" and s = ?s]
  have h: "''Rice'' \<noteq> [] \<and> awaitJson ?S = Inr (Some [\<lparr>pt_date = 202403::nat, pt_y = Number (Fin 98)\<rparr>])
           \<and> 3 \<in> set horizons \<and> awaitJson (?P 3) = Inl (HttpError 503)"
    by (simp add: ok_def horizons_def)
  from T [THEN conjunct1, THEN mp, OF h]
  obtain h' e where H: "h' \<in> set horizons" "awaitJson (?P h') = Inl e"
     "QuickHorizons_go ''Rice'' ?S ?P True ?s = ?s\<lparr>qh_loading := False, qh_err := Some e\<rparr>"
    by blast
  have "e = HttpError 503"
    using H(1,2) by (auto simp: horizons_def ok_def split: if_splits)
  then show ?thesis using H(3) by simp
qed

text \<open>
  C5 as stated asks for an error that identifies the failing horizon and for the same
  policy in both loops.
\<close>

theorem QuickHorizons_error_not_horizon:
  "QuickHorizons_go ''Rice'' (Response 200 (Inr (Some [\<lparr>pt_date = 202403::nat, pt_y = Number (Fin 98)\<rparr>])))
      (\<lambda>h. if h = 1 then Response 500 (Inr \<lparr>future_date_h = Str ''2024-06-01'', pred_h = Number (Fin 102)\<rparr>) else Response 200 (Inr \<lparr>future_date_h = Str ''2024-06-01'', pred_h = Number (Fin 102)\<rparr>)) True \<lparr>qh_rows = [], qh_meta = None, qh_loading = False, qh_err = None\<rparr>
   = QuickHorizons_go ''Rice'' (Response 200 (Inr (Some [\<lparr>pt_date = 202403::nat, pt_y = Number (Fin 98)\<rparr>])))
      (\<lambda>h. if h = 6 then Response 500 (Inr \<lparr>future_date_h = Str ''2024-06-01'', pred_h = Number (Fin 102)\<rparr>) else Response 200 (Inr \<lparr>future_date_h = Str ''2024-06-01'', pred_h = Number (Fin 102)\<rparr>)) True \<lparr>qh_rows = [], qh_meta = None, qh_loading = False, qh_err = None\<rparr>
   \<and> qh_err (QuickHorizons_go ''Rice'' (Response 200 (Inr (Some [\<lparr>pt_date = 202403::nat, pt_y = Number (Fin 98)\<rparr>])))
      (\<lambda>h. if h = 1 then Response 500 (Inr \<lparr>future_date_h = Str ''2024-06-01'', pred_h = Number (Fin 102)\<rparr>) else Response 200 (Inr \<lparr>future_date_h = Str ''2024-06-01'', pred_h = Number (Fin 102)\<rparr>)) True (\<lparr>qh_rows = [], qh_meta = None, qh_loading = False, qh_err = None\<rparr> :: nat qh_state)) = Some (HttpError 500)
   \<and> filter (\<lambda>h. awaitJson ((\<lambda>h. if h = 1 then Response 500 (Inr \<lparr>future_date_h = Str ''2024-06-01'', pred_h = Number (Fin 102)\<rparr>) else Response 200 (Inr \<lparr>future_date_h = Str ''2024-06-01'', pred_h = Number (Fin 102)\<rparr>)) h) = Inl (HttpError 500)) horizons = [1]
   \<and> filter (\<lambda>h. awaitJson ((\<lambda>h. if h = 6 then Response 500 (Inr \<lparr>future_date_h = Str ''2024-06-01'', pred_h = Number (Fin 102)\<rparr>) else Response 200 (Inr \<lparr>future_date_h = Str ''2024-06-01'', pred_h = Number (Fin 102)\<rparr>)) h) = Inl (HttpError 500)) horizons = [6]
   \<and> planner_loop (\<lambda>h. if h = 3 then Response 503 (Inr \<lparr>future_date_h = Str ''2024-06-01'', pred_h = Number (Fin 102)\<rparr>) else Response 200 (Inr \<lparr>future_date_h = Str ''2024-06-01'', pred_h = Number (Fin 102)\<rparr>)) horizons Map.empty
       = Inr [''1'' \<mapsto> [\<lparr>fp_date = Str ''2024-06-01'', yhat = Number (Fin 102), fp_lo = Null, fp_hi = Null\<rparr>],
              ''6'' \<mapsto> [\<lparr>fp_date = Str ''2024-06-01'', yhat = Number (Fin 102), fp_lo = Null, fp_hi = Null\<rparr>]]"
  by (simp add: QuickHorizons_go_def quick_try_def horizons_def ok_def Let_def toString.simps)

section \<open>Loading on selection change: properties\<close>

lemma latestReq_step: "latestReq s \<le> latestReq (step ev s)"
  by (cases ev) (auto simp: selectionChange_def onPredict_def onSeries_def split: sum.splits)

lemma latestReq_run: "latestReq s \<le> latestReq (run evs s)"
  unfolding run_def
proof (induction evs arbitrary: s)
  case Nil
  show ?case by simp
next
  case (Cons ev evs)
  have "latestReq s \<le> latestReq (step ev s)" by (rule latestReq_step)
  also have "\<dots> \<le> latestReq (fold step evs (step ev s))" by (rule Cons.IH)
  finally show ?case by simp
qed

lemma stale_predict: "reqId \<noteq> latestReq s \<Longrightarrow> onPredict reqId resp s = (False, s)"
  by (simp add: onPredict_def split: sum.splits)

lemma stale_series: "reqId \<noteq> latestReq s \<Longrightarrow> onSeries reqId resp s = s"
  by (simp add: onSeries_def split: sum.splits)

lemma stale_run:
  "reqId \<noteq> latestReq s \<Longrightarrow> \<forall>ev\<in>set evs. arrival_of reqId ev \<Longrightarrow> run evs s = s"
  unfolding run_def
proof (induction evs)
  case Nil
  show ?case by simp
next
  case (Cons ev evs)
  have "step ev s = s"
    using Cons.prems by (cases ev) (simp_all add: arrival_of_def stale_predict stale_series)
  then show ?case using Cons by simp
qed

lemma issue_id:
  "selectionChange c r s = (Some i, s') \<Longrightarrow> i = latestReq s' \<and> latestReq s' = latestReq s + 1"
  by (auto simp: selectionChange_def split: if_splits)

text \<open>
  C4. Let the selection change to A and later to B, each change issuing requests, with
  any events in between. From then on, whatever else happens, a response of A that
  arrives is not applied: its \<open>reqId\<close>, taken when A was issued, is smaller than the
  counter, so the arrival leaves the state as it is (and A does not go on to request
  its series). A response of B that arrives while B is the latest selection is
  applied, and no sequence of late arrivals of A changes the state afterwards.
\<close>

theorem stale_response_discarded:
  "selectionChange commodityA regionA s0 = (Some idA, sA)
   \<and> selectionChange commodityB regionB (run evs1 sA) = (Some idB, sB)
   \<longrightarrow>
     idA < idB
     \<and> onPredict idA respP (run evs2 sB) = (False, run evs2 sB)
     \<and> step (PredictArrives idA respP) (run evs2 sB) = run evs2 sB
     \<and> step (SeriesArrives idA respS) (run evs2 sB) = run evs2 sB
     \<and> st_kpi (step (PredictArrives idB (Response 200 (Inr rB))) sB) = kpi_of rB
     \<and> st_history (step (SeriesArrives idB (Response 200 (Inr hB))) sB)
         = (case hB of None \<Rightarrow> [] | Some ps \<Rightarrow> ps)
     \<and> ((\<forall>ev\<in>set lateA. arrival_of idA ev) \<longrightarrow>
          run lateA (run evs2 sB) = run evs2 sB)"
proof (intro impI)
  assume H: "selectionChange commodityA regionA s0 = (Some idA, sA)
   \<and> selectionChange commodityB regionB (run evs1 sA) = (Some idB, sB)"
  have a: "idA = latestReq sA" using H issue_id by blast
  have b: "idB = latestReq sB" "latestReq sB = latestReq (run evs1 sA) + 1"
    using H issue_id by blast+
  have "latestReq sA \<le> latestReq (run evs1 sA)" by (rule latestReq_run)
  then have lt: "idA < idB" using a b by simp
  have "latestReq sB \<le> latestReq (run evs2 sB)" by (rule latestReq_run)
  then have ne: "idA \<noteq> latestReq (run evs2 sB)" using lt b(1) by simp
  have k: "st_kpi (step (PredictArrives idB (Response 200 (Inr rB))) sB) = kpi_of rB"
    using b(1) by (simp add: onPredict_def getJSON_def ok_def)
  have hh: "st_history (step (SeriesArrives idB (Response 200 (Inr hB))) sB)
         = (case hB of None \<Rightarrow> [] | Some ps \<Rightarrow> ps)"
    using b(1) by (simp add: onSeries_def getJSON_def ok_def)
  show "idA < idB
     \<and> onPredict idA respP (run evs2 sB) = (False, run evs2 sB)
     \<and> step (PredictArrives idA respP) (run evs2 sB) = run evs2 sB
     \<and> step (SeriesArrives idA respS) (run evs2 sB) = run evs2 sB
     \<and> st_kpi (step (PredictArrives idB (Response 200 (Inr rB))) sB) = kpi_of rB
     \<and> st_history (step (SeriesArrives idB (Response 200 (Inr hB))) sB)
         = (case hB of None \<Rightarrow> [] | Some ps \<Rightarrow> ps)
     \<and> ((\<forall>ev\<in>set lateA. arrival_of idA ev) \<longrightarrow>
          run lateA (run evs2 sB) = run evs2 sB)"
    using lt k hh stale_predict[OF ne] stale_series[OF ne] stale_run[OF ne]
    by simp
qed


theorem stale_response_discarded_witness:
  "step (SeriesArrives 1 (Response 200 (Inr (Some [\<lparr>pt_date = 202403::nat, pt_y = Number (Fin 98)\<rparr>]))))
      (run [PredictArrives 2 (Response 200 (Inr None))]
           \<lparr>latestReq = 2, st_kpi = emptyKpi, st_history = []\<rparr>)
   = run [PredictArrives 2 (Response 200 (Inr None))]
           \<lparr>latestReq = 2, st_kpi = emptyKpi, st_history = []\<rparr>
   \<and> (1::nat) < 2"
proof -
  let ?s0 = "\<lparr>latestReq = 0, st_kpi = emptyKpi, st_history = []\<rparr> :: nat dash"
  let ?sA = "\<lparr>latestReq = 1, st_kpi = emptyKpi, st_history = []\<rparr> :: nat dash"
  let ?sB = "\<lparr>latestReq = 2, st_kpi = emptyKpi, st_history = []\<rparr> :: nat dash"
  let ?evs2 = "[PredictArrives 2 (Response 200 (Inr None))] :: nat event list"
  let ?respS = "Response 200 (Inr (Some [\<lparr>pt_date = 202403::nat, pt_y = Number (Fin 98)\<rparr>]))"
  note T = stale_response_discarded [where commodityA = "''Rice''" and regionA = "''All''"
      and ?s0.0 = ?s0 and idA = 1 and sA = ?sA and commodityB = "''Fish''" and regionB = "''All''"
      and ?evs1.0 = "[]" and idB = 2 and sB = ?sB and ?evs2.0 = ?evs2 and respS = ?respS]
  have h: "selectionChange ''Rice'' ''All'' ?s0 = (Some 1, ?sA)
           \<and> selectionChange ''Fish'' ''All'' (run [] ?sA) = (Some 2, ?sB)"
    by (simp add: selectionChange_def run_def)
  note R = T [THEN mp, OF h]
  have "step (SeriesArrives 1 ?respS) (run ?evs2 ?sB) = run ?evs2 ?sB"
    by (rule R [THEN conjunct2, THEN conjunct2, THEN conjunct2, THEN conjunct1])
  moreover have "(1::nat) < 2" by (rule R [THEN conjunct1])
  ultimately show ?thesis by blast
qed

end
